theory Spec2Isabelle
  imports Main "HOL-Library.Word"
begin

section \<open>Data model of the authentication callbacks (app/server/server.go)\<close>

text \<open>
  The server hands four callbacks to the authentication library: \<open>ClaimUpdateFn\<close>,
  \<open>BasicAuthCheckerFn\<close>, \<open>Check\<close> and \<open>Validate\<close>. They read the user store and
  build or inspect the library's \<open>token.User\<close> and \<open>token.Claims\<close> values.

  A value stored in \<open>map[string]interface{}\<close> is a dynamically typed value; the three
  dynamic types the server stores or reads are \<open>bool\<close>, \<open>int64\<close> and \<open>string\<close>.
\<close>

datatype attr_value = BoolVal bool | Int64Val "64 word" | StringVal string

text \<open>
  \<open>store.User\<close>: the record the storage engine returns. The server reads \<open>ID\<close>,
  \<open>Name\<close>, \<open>Password\<close>, \<open>Role\<close> and \<open>Disabled\<close>.
\<close>

record store_User =
  ID :: "64 word"
  Login :: string
  Name :: string
  Password :: string
  Role :: string
  Group :: "64 word"
  Disabled :: bool
  Description :: string

text \<open>
  \<open>token.User\<close> of the authentication library. \<open>Attributes\<close> is a Go map, which may be
  \<open>nil\<close>: \<open>None\<close> is the nil map, \<open>Some m\<close> an allocated one.
\<close>

record token_User =
  tok_Name :: string
  tok_ID :: string
  tok_Picture :: string
  tok_Audience :: string
  tok_IP :: string
  tok_Email :: string
  tok_Attributes :: "(string \<rightharpoonup> attr_value) option"
  tok_Role :: string

text \<open>
  \<open>token.Claims\<close>: \<open>User\<close> is a pointer (\<open>None\<close> is nil). The remaining fields are the
  registered JWT claims and the library's session flags.
\<close>

record token_Claims =
  clm_Audience :: string
  clm_ExpiresAt :: "64 word"
  clm_Id :: string
  clm_IssuedAt :: "64 word"
  clm_Issuer :: string
  clm_NotBefore :: "64 word"
  clm_Subject :: string
  User :: "token_User option"
  SessionOnly :: bool
  NoAva :: bool

datatype error =
    StorageError string
  | Errorf string
  | NilPointerDereference
  | Panic string

text \<open>
  The registry service is an interface (server.go 63-96). Route construction calls its
  \<open>UpdateHtpasswd\<close> once; the field is what that call returns (\<open>None\<close> is a nil error).
\<close>

record registryInterface =
  UpdateHtpasswd :: "error option"

text \<open>
  \<open>SSLConfig\<close> and the mode constants are declared in another file of the package; the
  mode is an integer type, so a value outside the three named constants is possible.
\<close>

datatype sslMode = SSLNone | SSLStatic | SSLAuto | SSLOther nat

record SSLConfig =
  SSLMode :: sslMode
  ssl_Port :: "64 word"
  Cert :: string
  Key :: string

text \<open>
  \<open>Server\<close> (server.go 35-52). The storage engine is an interface implemented elsewhere;
  of it the callbacks use \<open>GetUser\<close>, a field holding a function: a lookup by name returns
  the user or an error. \<open>RegistryService\<close> is an interface value and may be nil.
\<close>

record Server =
  Hostname :: string
  Listen :: string
  Port :: "64 word"
  SSLConfig :: SSLConfig
  Storage_GetUser :: "string \<Rightarrow> error + store_User"
  RegistryService :: "registryInterface option"
  GarbageCollectorInterval :: "64 word"

subsection \<open>Library operations on \<open>token.User\<close>\<close>

text \<open>\<open>token.User{}\<close>: the zero value, every string empty and the attribute map nil.\<close>

definition zero_User :: token_User where
  "zero_User = \<lparr>tok_Name = [], tok_ID = [], tok_Picture = [], tok_Audience = [],
     tok_IP = [], tok_Email = [], tok_Attributes = None, tok_Role = []\<rparr>"

definition SetRole :: "token_User \<Rightarrow> string \<Rightarrow> token_User" where
  "SetRole u role = u\<lparr>tok_Role := role\<rparr>"

text \<open>\<open>SetBoolAttr\<close> allocates the map when it is nil, then stores the boolean.\<close>

definition SetBoolAttr :: "token_User \<Rightarrow> string \<Rightarrow> bool \<Rightarrow> token_User" where
  "SetBoolAttr u key val =
     (case tok_Attributes u of
        None \<Rightarrow> u\<lparr>tok_Attributes := Some (Map.empty(key \<mapsto> BoolVal val))\<rparr>
      | Some m \<Rightarrow> u\<lparr>tok_Attributes := Some (m(key \<mapsto> BoolVal val))\<rparr>)"


subsection \<open>\<open>strconv.FormatInt(i, 10)\<close>\<close>

text \<open>
  Go indexes the digit table \<open>"0123456789..."\<close> with the remainder; the remainder of a
  division by ten is always below ten.
\<close>

definition digit_char :: "nat \<Rightarrow> char" where
  "digit_char d = ''0123456789'' ! d"

fun format_nat :: "nat \<Rightarrow> string" where
  "format_nat n =
     (if n < 10 then [digit_char n] else format_nat (n div 10) @ [digit_char (n mod 10)])"

declare format_nat.simps [simp del]

definition FormatInt10 :: "64 word \<Rightarrow> string" where
  "FormatInt10 i =
     (if sint i < 0 then CHR ''-'' # format_nat (nat (- sint i)) else format_nat (nat (sint i)))"

subsection \<open>The callbacks\<close>

text \<open>
  The statement \<open>u.Attributes[key] = v\<close>: Go panics on an assignment to an entry of a nil
  map.
\<close>

definition assign_attr :: "token_User \<Rightarrow> string \<Rightarrow> attr_value \<Rightarrow> error + token_User" where
  "assign_attr u key v =
     (case tok_Attributes u of
        None \<Rightarrow> Inl (Panic ''assignment to entry in nil map'')
      | Some m \<Rightarrow> Inr (u\<lparr>tok_Attributes := Some (m(key \<mapsto> v))\<rparr>))"

text \<open>\<open>if u.Attributes == nil { u.Attributes = make(map[string]interface{}) }\<close>\<close>

definition make_attrs_if_nil :: "token_User \<Rightarrow> token_User" where
  "make_attrs_if_nil u =
     (if tok_Attributes u = None then u\<lparr>tok_Attributes := Some Map.empty\<rparr> else u)"

text \<open>
  \<open>ClaimUpdateFn\<close> (server.go 424-440). \<open>claims.User.Name\<close> dereferences the pointer
  before anything else, so a nil \<open>User\<close> is a run-time panic. The function writes through
  the pointer; the model returns the claims with the user the pointer then refers to.
\<close>

definition ClaimUpdateFn :: "Server \<Rightarrow> token_Claims \<Rightarrow> error + token_Claims" where
  "ClaimUpdateFn s claims =
     (case User claims of
        None \<Rightarrow> Inl NilPointerDereference
      | Some cu \<Rightarrow>
          (case Storage_GetUser s (tok_Name cu) of
             Inl err \<Rightarrow> Inr claims
           | Inr u \<Rightarrow>
               (let cu1 = SetRole cu (Role u);
                    cu2 = make_attrs_if_nil cu1;
                    cu3 = SetBoolAttr cu2 ''disabled'' (Disabled u)
                in case assign_attr cu3 ''uid'' (Int64Val (ID u)) of
                     Inl p \<Rightarrow> Inl p
                   | Inr cu4 \<Rightarrow> Inr (claims\<lparr>User := Some cu4\<rparr>))))"

text \<open>The message of \<open>errors.Errorf("User with login '%s' disabled", user)\<close>.\<close>

definition disabled_message :: "string \<Rightarrow> string" where
  "disabled_message user =
     ''User with login '' @ [CHR 0x27] @ user @ [CHR 0x27] @ '' disabled''"

text \<open>
  \<open>BasicAuthCheckerFn\<close> (server.go 443-472) returns \<open>(bool, token.User, error)\<close>; a nil
  error is \<open>None\<close>, and \<open>Inl\<close> is a panic. \<open>store.ComparePassword\<close> lives in the store
  package and is taken as the parameter \<open>ComparePassword\<close> (stored hash first, candidate
  password second).
\<close>

definition BasicAuthCheckerFn ::
  "Server \<Rightarrow> (string \<Rightarrow> string \<Rightarrow> bool) \<Rightarrow> string \<Rightarrow> string
     \<Rightarrow> error + bool \<times> token_User \<times> error option"
where
  "BasicAuthCheckerFn s ComparePassword user password =
     (let claim = zero_User in
      case Storage_GetUser s user of
        Inl err \<Rightarrow> Inr (False, claim, None)
      | Inr u \<Rightarrow>
          if Disabled u then Inr (False, claim, Some (Errorf (disabled_message user)))
          else
            (let ok = ComparePassword (Password u) password in
             if \<not> ok then Inr (False, claim, None)
             else
               (let c1 = claim\<lparr>tok_Name := Name u\<rparr>;
                    c2 = SetRole c1 (Role u);
                    c3 = make_attrs_if_nil c2
                in case assign_attr c3 ''uid'' (Int64Val (ID u)) of
                     Inl p \<Rightarrow> Inl p
                   | Inr c4 \<Rightarrow> Inr (True, c4\<lparr>tok_ID := FormatInt10 (ID u)\<rparr>, None))))"

text \<open>\<open>Check\<close> (server.go 476-479) drops the middle component.\<close>

definition Check ::
  "Server \<Rightarrow> (string \<Rightarrow> string \<Rightarrow> bool) \<Rightarrow> string \<Rightarrow> string \<Rightarrow> error + bool \<times> error option"
where
  "Check s ComparePassword user password =
     (case BasicAuthCheckerFn s ComparePassword user password of
        Inl p \<Rightarrow> Inl p
      | Inr (ok, _, err) \<Rightarrow> Inr (ok, err))"


subsection \<open>A concrete store for evaluation\<close>

text \<open>
  Two users: \<open>alice\<close>, an enabled manager with id 42, and \<open>bob\<close>, a disabled admin with
  id 7. Any other name is unknown to the store. The comparison used with it accepts a
  password that equals the stored string.
\<close>

definition alice :: store_User where
  "alice = \<lparr>ID = 42, Login = ''alice'', Name = ''alice'', Password = ''s3cret'',
     Role = ''manager'', Group = 1, Disabled = False, Description = []\<rparr>"

definition bob :: store_User where
  "bob = \<lparr>ID = 7, Login = ''bob'', Name = ''bob'', Password = ''hunter2'',
     Role = ''admin'', Group = 1, Disabled = True, Description = []\<rparr>"

definition demo_server :: Server where
  "demo_server = \<lparr>Hostname = ''registry.local'', Listen = ''*'', Port = 80,
     SSLConfig = \<lparr>SSLMode = SSLNone, ssl_Port = 443, Cert = [], Key = []\<rparr>,
     Storage_GetUser = (\<lambda>n.
       if n = ''alice'' then Inr alice
       else if n = ''bob'' then Inr bob
       else Inl (StorageError ''user not found'')),
     RegistryService = Some \<lparr>UpdateHtpasswd = None\<rparr>,
     GarbageCollectorInterval = 3600\<rparr>"

definition plain_compare :: "string \<Rightarrow> string \<Rightarrow> bool" where
  "plain_compare stored password = (stored = password)"

definition demo_claims :: "string \<Rightarrow> token_Claims" where
  "demo_claims n = \<lparr>clm_Audience = ''registry'', clm_ExpiresAt = 0, clm_Id = ''jti'',
     clm_IssuedAt = 0, clm_Issuer = ''registry-admin'', clm_NotBefore = 0,
     clm_Subject = [], User = Some (zero_User\<lparr>tok_Name := n, tok_Email := ''x@y''\<rparr>),
     SessionOnly = True, NoAva = False\<rparr>"

section \<open>The router built by \<open>routes\<close> (server.go 204-360)\<close>

text \<open>
  \<open>routes\<close> declares the routing tree with the router library's \<open>Use\<close>, \<open>Group\<close>,
  \<open>Route\<close>, \<open>Mount\<close> and the method registrations. The declarations are data; the
  functions after them give the library's meaning: which handler a request reaches, and
  through which middlewares.
\<close>

datatype handler =
    authHandler
  | userInfoCtrl | userFindCtrl | userCreateCtrl | userUpdateCtrl | userDeleteCtrl
  | groupInfoCtrl | groupFindCtrl | groupCreateCtrl | groupUpdateCtrl | groupDeleteCtrl
  | accessInfoCtrl | accessFindCtrl | accessAddCtrl | accessUpdateCtrl | accessDeleteCtrl
  | tokenAuth | events | health | catalogList | imageConfig | syncRepositories | deleteDigest
  | staticWeb

datatype middleware =
    Throttle nat | RealIP | Recoverer | Timeout nat | Ping | Cors | AccessLog
  | LimitHandler nat | NoCache
  | Trace | Auth | RBAC "string list"

datatype http_method = GET | POST | PUT | DELETE | HEAD | OPTIONS | PATCH

datatype route_decl =
    Use "middleware list"
  | Handle http_method string handler
  | Group "route_decl list"
  | Route string "route_decl list"
  | Mount string handler

abbreviation Get :: "string \<Rightarrow> handler \<Rightarrow> route_decl" where
  "Get \<equiv> Handle GET"

abbreviation Post :: "string \<Rightarrow> handler \<Rightarrow> route_decl" where
  "Post \<equiv> Handle POST"

abbreviation Put :: "string \<Rightarrow> handler \<Rightarrow> route_decl" where
  "Put \<equiv> Handle PUT"

abbreviation Delete :: "string \<Rightarrow> handler \<Rightarrow> route_decl" where
  "Delete \<equiv> Handle DELETE"

text \<open>The \<open>/api/v1/registry\<close> subtree (server.go 325-352).\<close>

definition registry_routes :: "route_decl list" where
  "registry_routes =
     [Get ''/auth'' tokenAuth,
      Group [Use [Auth, NoCache],
             Post ''/events'' events,
             Get ''/health'' health],
      Group [Use [Auth, NoCache],
             Get ''/catalog'' catalogList],
      Group [Use [Auth, NoCache],
             Use [RBAC [''admin'', ''manager'']],
             Get ''/catalog/blobs'' imageConfig],
      Group [Use [RBAC [''admin'']],
             Get ''/sync'' syncRepositories,
             Delete ''/catalog/*'' deleteDigest]]"

definition users_routes :: "route_decl list" where
  "users_routes =
     [Use [Auth, NoCache],
      Use [RBAC [''admin'', ''manager'']],
      Get ''/{id}'' userInfoCtrl,
      Get ''/'' userFindCtrl,
      Group [Use [RBAC [''admin'']],
             Post ''/'' userCreateCtrl,
             Put ''/{id}'' userUpdateCtrl,
             Delete ''/{id}'' userDeleteCtrl]]"

definition groups_routes :: "route_decl list" where
  "groups_routes =
     [Use [Auth, NoCache],
      Use [RBAC [''admin'', ''manager'']],
      Get ''/{id}'' groupInfoCtrl,
      Get ''/'' groupFindCtrl,
      Group [Use [RBAC [''admin'']],
             Post ''/'' groupCreateCtrl,
             Put ''/{id}'' groupUpdateCtrl,
             Delete ''/{id}'' groupDeleteCtrl]]"

definition access_routes :: "route_decl list" where
  "access_routes =
     [Use [Auth, NoCache],
      Use [RBAC [''admin'', ''manager'']],
      Get ''/{id}'' accessInfoCtrl,
      Get ''/'' accessFindCtrl,
      Group [Use [RBAC [''admin'']],
             Post ''/'' accessAddCtrl,
             Put ''/{id}'' accessUpdateCtrl,
             Delete ''/{id}'' accessDeleteCtrl]]"

text \<open>The whole tree, in the order \<open>routes\<close> declares it.\<close>

definition router :: "route_decl list" where
  "router =
     [Use [Throttle 1000, RealIP, Recoverer],
      Use [Timeout 30],
      Use [Ping],
      Use [Cors],
      Use [AccessLog],
      Group [Use [Timeout 5],
             Use [LimitHandler 10, NoCache],
             Mount ''/auth'' authHandler],
      Route ''/api/v1''
        [Group [Use [LimitHandler 10],
                Use [Trace, NoCache],
                Route ''/users'' users_routes,
                Route ''/groups'' groups_routes,
                Route ''/access'' access_routes,
                Route ''/registry'' registry_routes]],
      Get ''/*'' staticWeb]"

subsection \<open>Requests and middlewares\<close>

text \<open>
  Of a request the router reads the method and the URL path. \<open>req_user\<close> is the user the
  authentication library finds for the request (from its session token); \<open>None\<close> when the
  request carries no valid session.
\<close>

record request =
  req_method :: http_method
  req_path :: string
  req_user :: "token_User option"

text \<open>
  \<open>strings.EqualFold\<close> on ASCII: equality after folding the letters A-Z to lower case.
  (Strings are bytes here; the folding of letters outside ASCII is not modelled.)
\<close>

definition to_lower :: "char \<Rightarrow> char" where
  "to_lower c =
     (case map_of (zip ''ABCDEFGHIJKLMNOPQRSTUVWXYZ'' ''abcdefghijklmnopqrstuvwxyz'') c of
        None \<Rightarrow> c
      | Some l \<Rightarrow> l)"

definition EqualFold :: "string \<Rightarrow> string \<Rightarrow> bool" where
  "EqualFold a b = (map to_lower a = map to_lower b)"

text \<open>
  Whether a middleware lets a request through to the next handler. \<open>Auth\<close> answers 401
  without a user; \<open>RBAC\<close> answers 401 without a user and 403 when the user's role matches
  none of the listed roles; \<open>Trace\<close> never stops a request. Throttling, rate limits,
  timeouts and the ping responder stop a request for reasons of load, time or a path ending
  in \<open>/ping\<close>; they are let through here, so the model runs a handler whenever the server
  may.
\<close>

fun passes :: "request \<Rightarrow> middleware \<Rightarrow> bool" where
  "passes r Auth = (req_user r \<noteq> None)"
| "passes r (RBAC roles) =
     (case req_user r of
        None \<Rightarrow> False
      | Some u \<Rightarrow> list_ex (\<lambda>role. EqualFold role (tok_Role u)) roles)"
| "passes r _ = True"

subsection \<open>Patterns\<close>

text \<open>
  The patterns \<open>routes\<close> uses are a literal path, a literal prefix followed by one
  parameter segment (\<open>/{id}\<close>) and a literal prefix followed by the catch-all \<open>*\<close>.
  \<open>match_pattern\<close> returns the part of the path the catch-all took (empty otherwise). A
  parameter takes one non-empty segment.
\<close>

definition strip_prefix :: "string \<Rightarrow> string \<Rightarrow> string option" where
  "strip_prefix pre path =
     (if take (length pre) path = pre then Some (drop (length pre) path) else None)"

definition match_pattern :: "string \<Rightarrow> string \<Rightarrow> string option" where
  "match_pattern pat path =
     (if pat \<noteq> [] \<and> last pat = CHR ''*'' then strip_prefix (butlast pat) path
      else if CHR ''{'' \<in> set pat then
        (case strip_prefix (takeWhile (\<lambda>c. c \<noteq> CHR ''{'') pat) path of
           None \<Rightarrow> None
         | Some seg \<Rightarrow> if seg \<noteq> [] \<and> CHR ''/'' \<notin> set seg then Some [] else None)
      else if path = pat then Some [] else None)"

text \<open>
  A subrouter mounted at \<open>pre\<close> takes the path \<open>pre\<close> itself and every path under
  \<open>pre/\<close>; it routes on the rest, which starts with a slash.
\<close>

definition match_mount :: "string \<Rightarrow> string \<Rightarrow> string option" where
  "match_mount pre path =
     (if path = pre then Some ''/''
      else case strip_prefix (pre @ ''/'') path of
             None \<Rightarrow> None
           | Some rest \<Rightarrow> Some (CHR ''/'' # rest))"

text \<open>
  The routing tree prefers a literal match to a parameter and a parameter to a catch-all,
  and among catch-alls the longest literal prefix: a rank (kind, prefix length).
\<close>

definition pattern_rank :: "string \<Rightarrow> nat \<times> nat" where
  "pattern_rank pat =
     (if pat \<noteq> [] \<and> last pat = CHR ''*'' then (2, length (butlast pat))
      else if CHR ''{'' \<in> set pat then (1, length (takeWhile (\<lambda>c. c \<noteq> CHR ''{'') pat))
      else (0, length pat))"

definition better :: "nat \<times> nat \<Rightarrow> nat \<times> nat \<Rightarrow> bool" where
  "better a b = (fst a < fst b \<or> (fst a = fst b \<and> snd b < snd a))"

subsection \<open>Serving a request\<close>

text \<open>
  \<open>candidates mws ds r path\<close> lists, for the declarations \<open>ds\<close> of one router reached
  through the middlewares \<open>mws\<close>, every route that matches the method and the path: its
  rank and what serving it does (\<open>Some h\<close>: handler \<open>h\<close> runs; \<open>None\<close>: a middleware
  answered, or the subrouter found no route). \<open>Use\<close> applies to the declarations after it;
  a \<open>Group\<close> shares the router and keeps its middlewares to itself; \<open>Route\<close> mounts a
  subrouter, served on the rest of the path.
\<close>

fun pick_best :: "((nat \<times> nat) \<times> handler option) list \<Rightarrow> handler option" where
  "pick_best [] = None"
| "pick_best [c] = snd c"
| "pick_best (c # d # cs) =
     (if better (fst d) (fst c) then pick_best (d # cs) else pick_best (c # cs))"

fun candidates ::
  "middleware list \<Rightarrow> route_decl list \<Rightarrow> request \<Rightarrow> string
     \<Rightarrow> ((nat \<times> nat) \<times> handler option) list"
where
  "candidates mws [] r path = []"
| "candidates mws (Use ms # ds) r path = candidates (mws @ ms) ds r path"
| "candidates mws (Handle m pat h # ds) r path =
     (if req_method r = m \<and> match_pattern pat path \<noteq> None
      then [(pattern_rank pat, if list_all (passes r) mws then Some h else None)]
      else [])
     @ candidates mws ds r path"
| "candidates mws (Group gs # ds) r path =
     candidates mws gs r path @ candidates mws ds r path"
| "candidates mws (Route pre sub # ds) r path =
     (case match_mount pre path of
        None \<Rightarrow> []
      | Some rest \<Rightarrow> [((2, Suc (length pre)), pick_best (candidates mws sub r rest))])
     @ candidates mws ds r path"
| "candidates mws (Mount pre h # ds) r path =
     (case match_mount pre path of
        None \<Rightarrow> []
      | Some rest \<Rightarrow>
          [((2, Suc (length pre)), if list_all (passes r) mws then Some h else None)])
     @ candidates mws ds r path"

definition ServeHTTP :: "route_decl list \<Rightarrow> request \<Rightarrow> handler option" where
  "ServeHTTP ds r = pick_best (candidates [] ds r (req_path r))"

text \<open>
  \<open>guards mws ds h\<close>: for every registration of handler \<open>h\<close> in \<open>ds\<close>, the middlewares in
  front of it.
\<close>

fun guards :: "middleware list \<Rightarrow> route_decl list \<Rightarrow> handler \<Rightarrow> middleware list list" where
  "guards mws [] h = []"
| "guards mws (Use ms # ds) h = guards (mws @ ms) ds h"
| "guards mws (Handle m pat h' # ds) h = (if h' = h then [mws] else []) @ guards mws ds h"
| "guards mws (Group gs # ds) h = guards mws gs h @ guards mws ds h"
| "guards mws (Route pre sub # ds) h = guards mws sub h @ guards mws ds h"
| "guards mws (Mount pre h' # ds) h = (if h' = h then [mws] else []) @ guards mws ds h"

section \<open>Startup: \<open>routes\<close> and \<open>Run\<close> (server.go 107-175, 204-360)\<close>

text \<open>
  Building the router has two effects besides the tree it returns: the call of
  \<open>UpdateHtpasswd\<close> (server.go 252) and the start of the maintenance tasks (server.go
  322). \<open>Run\<close> then starts the listeners. The effects are recorded as a trace, in program
  order.
\<close>

datatype served = MainRouter "route_decl list" | HTTPSRedirect | ACMEChallenge

datatype event =
    CallUpdateHtpasswd
  | CallRepositoriesMaintenance "64 word"
  | ListenAndServe string served
  | ListenAndServeTLS string served

datatype run_result =
    Returned "error option"
  | Panicked error
  | Serving

text \<open>The text \<open>%v\<close> prints for an error.\<close>

fun error_text :: "error \<Rightarrow> string" where
  "error_text (StorageError m) = m"
| "error_text (Errorf m) = m"
| "error_text NilPointerDereference =
     ''runtime error: invalid memory address or nil pointer dereference''"
| "error_text (Panic m) = m"

text \<open>
  \<open>routes\<close>: the declarations run in order, so \<open>UpdateHtpasswd\<close> is called first; on an
  error the function panics (server.go 252-254) and nothing after it runs. Calling a
  method of a nil \<open>RegistryService\<close> is a nil dereference. (The other panic of route
  construction, in \<open>serveStaticWeb\<close>, needs \<open>fs.Sub\<close> to reject the directory name
  \<open>web\<close>, which is a valid name; it is left out.)
\<close>

definition routes :: "Server \<Rightarrow> event list \<times> (error + route_decl list)" where
  "routes s =
     (case RegistryService s of
        None \<Rightarrow> ([], Inl NilPointerDereference)
      | Some reg \<Rightarrow>
          (case UpdateHtpasswd reg of
             Some err \<Rightarrow>
               ([CallUpdateHtpasswd],
                Inl (Panic (''failed to update htpasswd: '' @ error_text err)))
           | None \<Rightarrow>
               ([CallUpdateHtpasswd, CallRepositoriesMaintenance (GarbageCollectorInterval s)],
                Inr router)))"

text \<open>\<open>fmt.Sprintf("%s:%d", listen, port)\<close>\<close>

definition listen_addr :: "string \<Rightarrow> 64 word \<Rightarrow> string" where
  "listen_addr listen port = listen @ '':'' @ FormatInt10 port"

text \<open>
  \<open>Run\<close> (server.go 107-175). A listener call blocks while the server serves; \<open>Serving\<close>
  is that state. In the two TLS modes the plain-HTTP listener runs in a goroutine of its
  own.
\<close>

definition Run :: "Server \<Rightarrow> event list \<times> run_result" where
  "Run s0 =
     (let s = (if Listen s0 = ''*'' then s0\<lparr>Listen := []\<rparr> else s0) in
      if RegistryService s = None
      then ([], Returned (Some (Errorf ''a registry service define required '')))
      else
        (case SSLMode (SSLConfig s) of
           SSLNone \<Rightarrow>
             (case routes s of
                (ev, Inl p) \<Rightarrow> (ev, Panicked p)
              | (ev, Inr rt) \<Rightarrow>
                  (ev @ [ListenAndServe (listen_addr (Listen s) (Port s)) (MainRouter rt)],
                   Serving))
         | SSLStatic \<Rightarrow>
             (case routes s of
                (ev, Inl p) \<Rightarrow> (ev, Panicked p)
              | (ev, Inr rt) \<Rightarrow>
                  (ev @ [ListenAndServe (listen_addr (Listen s) (Port s)) HTTPSRedirect,
                         ListenAndServeTLS (listen_addr (Listen s) (ssl_Port (SSLConfig s)))
                           (MainRouter rt)],
                   Serving))
         | SSLAuto \<Rightarrow>
             (case routes s of
                (ev, Inl p) \<Rightarrow> (ev, Panicked p)
              | (ev, Inr rt) \<Rightarrow>
                  (ev @ [ListenAndServe (listen_addr (Listen s) (Port s)) ACMEChallenge,
                         ListenAndServeTLS (listen_addr (Listen s) (ssl_Port (SSLConfig s)))
                           (MainRouter rt)],
                   Serving))
         | SSLOther k \<Rightarrow> ([], Returned None)))"

fun is_listen :: "event \<Rightarrow> bool" where
  "is_listen (ListenAndServe a h) = True"
| "is_listen (ListenAndServeTLS a h) = True"
| "is_listen _ = False"

text \<open>A server whose credential-file sync fails at startup.\<close>

definition broken_htpasswd_server :: Server where
  "broken_htpasswd_server =
     demo_server\<lparr>RegistryService :=
       Some \<lparr>UpdateHtpasswd = Some (Errorf ''open /etc/registry/.htpasswd: permission denied'')\<rparr>\<rparr>"

text \<open>Requests used for evaluation.\<close>

definition session_of :: "string \<Rightarrow> string \<Rightarrow> token_User" where
  "session_of n role = zero_User\<lparr>tok_Name := n, tok_Role := role\<rparr>"

definition catalog_request :: "token_User option \<Rightarrow> request" where
  "catalog_request u =
     \<lparr>req_method = GET, req_path = ''/api/v1/registry/catalog'', req_user = u\<rparr>"

definition blobs_request :: "token_User option \<Rightarrow> request" where
  "blobs_request u =
     \<lparr>req_method = GET, req_path = ''/api/v1/registry/catalog/blobs'', req_user = u\<rparr>"

definition sync_request :: "token_User option \<Rightarrow> request" where
  "sync_request u =
     \<lparr>req_method = GET, req_path = ''/api/v1/registry/sync'', req_user = u\<rparr>"

definition delete_request :: "string \<Rightarrow> token_User option \<Rightarrow> request" where
  "delete_request digest u =
     \<lparr>req_method = DELETE, req_path = ''/api/v1/registry/catalog/'' @ digest, req_user = u\<rparr>"

section \<open>The maintenance scheduler\<close>

text \<open>
  Modelled from the spec: \<open>RepositoriesMaintenance\<close> of the data service, which
  server.go starts at line 322 with the garbage-collector interval; its code is not among
  the sources. The spec describes a state machine \<open>Idle \<rightarrow> Running \<rightarrow> Idle\<close> that ticks on
  a fixed interval (a zero or negative interval disables it), guarded by a non-blocking
  guard: a tick tries to acquire the guard and is skipped when a run holds it. A run does
  the catalog sync and, only after a successful sync, the garbage collection; a failed
  sync is logged as \<open>MaintenanceTaskFailed\<close>. After cancellation no new run starts.

  The state counts the runs in progress, so that "at most one" is a property to prove and
  not a consequence of the type.
\<close>

datatype sched_event =
    Tick
  | RunDone bool
  | Cancel

record scheduler =
  enabled :: bool
  cancelled :: bool
  guard_held :: bool
  active_runs :: nat
  runs_started :: nat
  ticks_skipped :: nat
  gc_runs :: nat
  failures :: "string list"

text \<open>
  Modelled from the spec: \<open>RepositoriesMaintenance\<close> (its code is missing), the scheduler
  as started with an interval: idle, nothing counted, and disabled when the interval is
  zero or negative.
\<close>

definition RepositoriesMaintenance :: "64 word \<Rightarrow> scheduler" where
  "RepositoriesMaintenance interval =
     \<lparr>enabled = (0 < sint interval), cancelled = False, guard_held = False,
      active_runs = 0, runs_started = 0, ticks_skipped = 0, gc_runs = 0, failures = []\<rparr>"

text \<open>
  Modelled from the spec: the timer loop of \<open>RepositoriesMaintenance\<close> (its code is
  missing), one event at a time. \<open>Tick\<close>: the timer fires (it does not fire when the
  scheduler is disabled or cancelled); the tick tries the guard and is skipped when a run
  holds it. \<open>RunDone ok\<close>: the run in progress ends, \<open>ok\<close> telling whether the catalog sync
  succeeded; without a run in progress there is nothing to end.
\<close>

fun step :: "scheduler \<Rightarrow> sched_event \<Rightarrow> scheduler" where
  "step s Tick =
     (if \<not> enabled s \<or> cancelled s then s
      else if guard_held s then s\<lparr>ticks_skipped := ticks_skipped s + 1\<rparr>
      else s\<lparr>guard_held := True, active_runs := active_runs s + 1,
             runs_started := runs_started s + 1\<rparr>)"
| "step s (RunDone ok) =
     (if active_runs s = 0 then s
      else if ok
      then s\<lparr>guard_held := False, active_runs := active_runs s - 1, gc_runs := gc_runs s + 1\<rparr>
      else s\<lparr>guard_held := False, active_runs := active_runs s - 1,
             failures := failures s @ [''MaintenanceTaskFailed'']\<rparr>)"
| "step s Cancel = s\<lparr>cancelled := True\<rparr>"

fun run_events :: "scheduler \<Rightarrow> sched_event list \<Rightarrow> scheduler" where
  "run_events s [] = s"
| "run_events s (e # es) = run_events (step s e) es"

definition guard_inv :: "scheduler \<Rightarrow> bool" where
  "guard_inv s = (active_runs s = (if guard_held s then 1 else 0))"

section \<open>The registry client\<close>

text \<open>
  Modelled from the spec: the registry client that implements \<open>registryInterface\<close>. Its
  code is not among the sources; server.go declares the interface only (63-96). The spec
  gives its error taxonomy and, for each operation, what it sends upstream and returns.
\<close>

datatype client_error =
    NotFound | AuthorizationDenied | UpstreamUnavailable | UpstreamProtocolError

subsection \<open>Upstream answers\<close>

text \<open>
  Modelled from the spec: what the upstream answers to one call of the client (the
  client's code is missing): an HTTP status, or nothing at all (timeout, connection
  failure).
\<close>

datatype upstream_reply = HTTPStatus nat | NoResponse

text \<open>
  Modelled from the spec: the client's translation of the upstream answer into the error
  taxonomy (its code is missing). 401 and 403 are \<open>AuthorizationDenied\<close>, 404 is
  \<open>NotFound\<close>, a 5xx status, a timeout and a connection failure are
  \<open>UpstreamUnavailable\<close>, anything else that is not a success status is
  \<open>UpstreamProtocolError\<close>. \<open>None\<close> is success (a 2xx status).
\<close>

definition translate_reply :: "upstream_reply \<Rightarrow> client_error option" where
  "translate_reply reply =
     (case reply of
        NoResponse \<Rightarrow> Some UpstreamUnavailable
      | HTTPStatus code \<Rightarrow>
          if 200 \<le> code \<and> code < 300 then None
          else if code = 401 \<or> code = 403 then Some AuthorizationDenied
          else if code = 404 then Some NotFound
          else if 500 \<le> code \<and> code < 600 then Some UpstreamUnavailable
          else Some UpstreamProtocolError)"

subsection \<open>Deletion by digest\<close>

text \<open>
  Modelled from the spec: the upstream registry holds, for each repository name, its tags
  and the manifest digest each tag points to. Every call of the client takes, besides the
  registry, the answer the upstream gives to it, which may be any answer. A registry
  deletes by digest only: a delete request it accepts removes the manifest with the given
  digest and with it every tag that points to it.
\<close>

type_synonym upstream_registry = "string \<Rightarrow> (string \<times> string) list"

definition digests_of :: "upstream_registry \<Rightarrow> string \<Rightarrow> string list" where
  "digests_of up repoName = map snd (up repoName)"

definition tags_pointing_to :: "upstream_registry \<Rightarrow> string \<Rightarrow> string \<Rightarrow> string list" where
  "tags_pointing_to up repoName digest =
     map fst (filter (\<lambda>td. snd td = digest) (up repoName))"

text \<open>
  Modelled from the spec: the manifest a reference identifies in the registry; the
  reference is a tag or a digest (server.go 87).
\<close>

definition resolve_reference :: "upstream_registry \<Rightarrow> string \<Rightarrow> string \<Rightarrow> string option" where
  "resolve_reference up repoName reference =
     (case map_of (up repoName) reference of
        Some digest \<Rightarrow> Some digest
      | None \<Rightarrow> if reference \<in> set (digests_of up repoName) then Some reference else None)"

text \<open>
  Modelled from the spec: the client's \<open>Manifest\<close> (its code is missing), reduced to the
  content digest of the manifest fetched. An upstream error is translated and returned; a
  success answer carries the manifest the reference identifies, and a success answer
  without a manifest is an unexpected response.
\<close>

definition Manifest ::
  "upstream_registry \<Rightarrow> upstream_reply \<Rightarrow> string \<Rightarrow> string \<Rightarrow> client_error + string"
where
  "Manifest up reply repoName reference =
     (case translate_reply reply of
        Some e \<Rightarrow> Inl e
      | None \<Rightarrow>
          (case resolve_reference up repoName reference of
             None \<Rightarrow> Inl UpstreamProtocolError
           | Some digest \<Rightarrow> Inr digest))"

text \<open>
  Modelled from the spec: the client's \<open>DeleteTag\<close> (its code is missing). It returns an
  error or nil (server.go 95); the second component is the registry after the call, which
  changes only when the upstream accepted the deletion.
\<close>

definition DeleteTag ::
  "upstream_registry \<Rightarrow> upstream_reply \<Rightarrow> string \<Rightarrow> string
     \<Rightarrow> client_error option \<times> upstream_registry"
where
  "DeleteTag up reply repoName digest =
     (case translate_reply reply of
        Some e \<Rightarrow> (Some e, up)
      | None \<Rightarrow> (None, up(repoName := filter (\<lambda>td. snd td \<noteq> digest) (up repoName))))"

text \<open>
  Modelled from the spec: what a caller does to delete a tag (the callers' code is
  missing): resolve the tag with the manifest fetch, then delete the digest. Each of the
  two calls has its own upstream answer.
\<close>

definition delete_tag_by_name ::
  "upstream_registry \<Rightarrow> upstream_reply \<Rightarrow> upstream_reply \<Rightarrow> string \<Rightarrow> string
     \<Rightarrow> client_error option \<times> upstream_registry"
where
  "delete_tag_by_name up fetch_reply delete_reply repoName tag =
     (case Manifest up fetch_reply repoName tag of
        Inl e \<Rightarrow> (Some e, up)
      | Inr digest \<Rightarrow> DeleteTag up delete_reply repoName digest)"

definition demo_upstream :: upstream_registry where
  "demo_upstream =
     (\<lambda>repo. if repo = ''team/app''
        then [(''latest'', ''sha256:aa''), (''v1'', ''sha256:aa''), (''v0'', ''sha256:bb'')]
        else [])"

subsection \<open>Paginated listing\<close>

text \<open>
  Modelled from the spec: \<open>Catalog\<close> and \<open>ListingImageTags\<close> take the page-size hint \<open>n\<close>
  and the cursor \<open>last\<close> (written \<open>last'\<close> below), both strings (server.go 82, 85), send
  one request upstream and
  return the page with whether more pages remain, which the registry signals by a
  \<open>Link\<close> header. The upstream is any function from the request to its answer; the first
  component of the result is the list of requests sent.
\<close>

record page_request =
  rq_path :: string
  rq_n :: string
  rq_last :: string

record page_response =
  rs_items :: "string list"
  rs_link :: "string option"

record listing =
  page_items :: "string list"
  has_more :: bool

type_synonym transport = "page_request \<Rightarrow> client_error + page_response"

text \<open>
  Modelled from the spec: one paginated listing call of the client (its code is missing),
  for a request already built.
\<close>

definition list_page :: "transport \<Rightarrow> page_request \<Rightarrow> page_request list \<times> (client_error + listing)" where
  "list_page up rq =
     ([rq],
      case up rq of
        Inl e \<Rightarrow> Inl e
      | Inr rs \<Rightarrow> Inr \<lparr>page_items = rs_items rs, has_more = (rs_link rs \<noteq> None)\<rparr>)"

text \<open>
  Modelled from the spec: the client's \<open>Catalog\<close> (its code is missing); the catalog
  endpoint of the registry API is \<open>/v2/_catalog\<close>.
\<close>

definition Catalog ::
  "transport \<Rightarrow> string \<Rightarrow> string \<Rightarrow> page_request list \<times> (client_error + listing)"
where
  "Catalog up n last' = list_page up \<lparr>rq_path = ''/v2/_catalog'', rq_n = n, rq_last = last'\<rparr>"

text \<open>
  Modelled from the spec: the client's \<open>ListingImageTags\<close> (its code is missing); the tag
  list of a repository is at \<open>/v2/<name>/tags/list\<close>.
\<close>

definition ListingImageTags ::
  "transport \<Rightarrow> string \<Rightarrow> string \<Rightarrow> string \<Rightarrow> page_request list \<times> (client_error + listing)"
where
  "ListingImageTags up repoName n last' =
     list_page up \<lparr>rq_path = ''/v2/'' @ repoName @ ''/tags/list'', rq_n = n, rq_last = last'\<rparr>"

text \<open>
  An upstream with the catalog \<open>alpha, beta, gamma\<close> for evaluation; it answers the two
  pages of size two and nothing else.
\<close>

definition demo_transport :: transport where
  "demo_transport rq =
     (if rq_path rq = ''/v2/_catalog'' \<and> rq_n rq = ''2'' \<and> rq_last rq = []
      then Inr \<lparr>rs_items = [''alpha'', ''beta''],
                rs_link = Some ''</v2/_catalog?last=beta&n=2>; rel=next''\<rparr>
      else if rq_path rq = ''/v2/_catalog'' \<and> rq_n rq = ''2'' \<and> rq_last rq = ''beta''
      then Inr \<lparr>rs_items = [''gamma''], rs_link = None\<rparr>
      else Inl NotFound)"

section \<open>Properties of the authentication callbacks\<close>

lemma BasicAuthCheckerFn_cases:
  "BasicAuthCheckerFn s cmp user password =
     (case Storage_GetUser s user of
        Inl err \<Rightarrow> Inr (False, zero_User, None)
      | Inr u \<Rightarrow>
          if Disabled u then Inr (False, zero_User, Some (Errorf (disabled_message user)))
          else if \<not> cmp (Password u) password then Inr (False, zero_User, None)
          else Inr (True,
                 zero_User\<lparr>tok_Name := Name u, tok_ID := FormatInt10 (ID u),
                   tok_Attributes := Some [''uid'' \<mapsto> Int64Val (ID u)], tok_Role := Role u\<rparr>,
                 None))"
  by (simp add: BasicAuthCheckerFn_def Let_def SetRole_def make_attrs_if_nil_def
      assign_attr_def zero_User_def split: sum.splits)

lemma ClaimUpdateFn_found:
  assumes "User claims = Some cu" and "Storage_GetUser s (tok_Name cu) = Inr u"
  shows "ClaimUpdateFn s claims =
     Inr (claims\<lparr>User := Some (cu\<lparr>tok_Role := Role u,
        tok_Attributes := Some ((case tok_Attributes cu of None \<Rightarrow> Map.empty | Some m \<Rightarrow> m)
           (''disabled'' \<mapsto> BoolVal (Disabled u), ''uid'' \<mapsto> Int64Val (ID u)))\<rparr>)\<rparr>)"
  using assms
  by (cases "tok_Attributes cu")
     (simp_all add: ClaimUpdateFn_def Let_def SetRole_def make_attrs_if_nil_def
        SetBoolAttr_def assign_attr_def)

lemma FormatInt10_42: "FormatInt10 42 = ''42''"
  by (simp add: FormatInt10_def format_nat.simps digit_char_def)

lemma FormatInt10_negative: "FormatInt10 (- 120) = ''-120''"
  by (simp add: FormatInt10_def format_nat.simps digit_char_def)

lemma ClaimUpdateFn_nil_user: "User claims = None \<Longrightarrow> ClaimUpdateFn s claims = Inl NilPointerDereference"
  by (simp add: ClaimUpdateFn_def)



text \<open>
  \<^bold>\<open>C2.\<close> \<open>BasicAuthCheckerFn\<close> never panics, and it returns \<open>ok = true\<close> exactly when the
  store lookup of the name succeeds, the returned user is not disabled and
  \<open>ComparePassword\<close> accepts the password against the stored hash. When \<open>ok = true\<close> the
  error is nil and the returned \<open>token.User\<close> is the zero value with the stored user's
  name and role, the attribute map holding only \<open>uid\<close> (the numeric id) and \<open>ID\<close> the
  decimal text of that id.
\<close>

theorem basic_auth_ok_iff:
  "(\<exists>ok c e. BasicAuthCheckerFn s cmp name password = Inr (ok, c, e)
      \<and> (ok \<longleftrightarrow> (\<exists>u. Storage_GetUser s name = Inr u \<and> \<not> Disabled u
                      \<and> cmp (Password u) password)))
   \<and> (\<forall>c e. BasicAuthCheckerFn s cmp name password = Inr (True, c, e) \<longrightarrow>
        (\<exists>u. Storage_GetUser s name = Inr u \<and> e = None
           \<and> c = zero_User\<lparr>tok_Name := Name u, tok_ID := FormatInt10 (ID u),
                   tok_Attributes := Some [''uid'' \<mapsto> Int64Val (ID u)],
                   tok_Role := Role u\<rparr>))"
  by (cases "Storage_GetUser s name") (auto simp: BasicAuthCheckerFn_cases)

theorem basic_auth_ok_iff_witness:
  "BasicAuthCheckerFn demo_server plain_compare ''alice'' ''s3cret'' =
     Inr (True, zero_User\<lparr>tok_Name := ''alice'', tok_ID := ''42'',
            tok_Attributes := Some [''uid'' \<mapsto> Int64Val 42], tok_Role := ''manager''\<rparr>, None)"
proof -
  have g: "Storage_GetUser demo_server ''alice'' = Inr alice"
    by (simp add: demo_server_def)
  have ok: "\<exists>u. Storage_GetUser demo_server ''alice'' = Inr u \<and> \<not> Disabled u
      \<and> plain_compare (Password u) ''s3cret''"
    by (simp add: g alice_def plain_compare_def)
  from basic_auth_ok_iff [of demo_server plain_compare "''alice''" "''s3cret''"] ok
  obtain c e where r: "BasicAuthCheckerFn demo_server plain_compare ''alice'' ''s3cret'' =
      Inr (True, c, e)"
    by auto
  with basic_auth_ok_iff [of demo_server plain_compare "''alice''" "''s3cret''"] g
  have "e = None" and "c = zero_User\<lparr>tok_Name := Name alice, tok_ID := FormatInt10 (ID alice),
      tok_Attributes := Some [''uid'' \<mapsto> Int64Val (ID alice)], tok_Role := Role alice\<rparr>"
    by auto
  with r show ?thesis
    by (simp add: alice_def FormatInt10_42)
qed

text \<open>
  \<^bold>\<open>C8\<close>, as stated, promises a nil error whenever the password does not match the stored
  hash. The disabled check comes before the password check (server.go 452-456), so a
  disabled user with a wrong password still gets the disabled-account error.
\<close>

theorem wrong_password_nil_error_counterexample:
  "Storage_GetUser demo_server ''bob'' = Inr bob
   \<and> \<not> plain_compare (Password bob) ''wrong''
   \<and> BasicAuthCheckerFn demo_server plain_compare ''bob'' ''wrong'' =
       Inr (False, zero_User, Some (Errorf (disabled_message ''bob'')))
   \<and> BasicAuthCheckerFn demo_server plain_compare ''bob'' ''wrong'' \<noteq>
       Inr (False, zero_User, None)"
  by (simp add: BasicAuthCheckerFn_cases demo_server_def bob_def plain_compare_def)

text \<open>
  \<^bold>\<open>C8\<close>, amended. \<open>BasicAuthCheckerFn\<close> returns a non-nil error exactly when the lookup
  succeeds and the user is disabled. If the lookup fails, or the user is enabled and the
  password does not match the stored hash, it returns \<open>ok = false\<close>, the empty claim and a
  nil error.
\<close>

theorem basic_auth_error_only_if_disabled:
  "(\<exists>ok c e. BasicAuthCheckerFn s cmp name password = Inr (ok, c, e)
      \<and> (e \<noteq> None \<longleftrightarrow> (\<exists>u. Storage_GetUser s name = Inr u \<and> Disabled u)))
   \<and> (\<forall>err. Storage_GetUser s name = Inl err \<longrightarrow>
         BasicAuthCheckerFn s cmp name password = Inr (False, zero_User, None))
   \<and> (\<forall>u. Storage_GetUser s name = Inr u \<longrightarrow> \<not> Disabled u \<longrightarrow>
         \<not> cmp (Password u) password \<longrightarrow>
         BasicAuthCheckerFn s cmp name password = Inr (False, zero_User, None))"
  by (cases "Storage_GetUser s name") (auto simp: BasicAuthCheckerFn_cases)

theorem basic_auth_error_only_if_disabled_witness:
  "Storage_GetUser demo_server ''carol'' = Inl (StorageError ''user not found'')
   \<and> BasicAuthCheckerFn demo_server plain_compare ''carol'' ''pw'' = Inr (False, zero_User, None)
   \<and> Storage_GetUser demo_server ''alice'' = Inr alice \<and> \<not> Disabled alice
   \<and> \<not> plain_compare (Password alice) ''wrong''
   \<and> BasicAuthCheckerFn demo_server plain_compare ''alice'' ''wrong'' =
        Inr (False, zero_User, None)"
proof -
  have g1: "Storage_GetUser demo_server ''carol'' = Inl (StorageError ''user not found'')"
    by (simp add: demo_server_def)
  have g2: "Storage_GetUser demo_server ''alice'' = Inr alice"
    by (simp add: demo_server_def)
  have a: "\<not> Disabled alice" "\<not> plain_compare (Password alice) ''wrong''"
    by (simp_all add: alice_def plain_compare_def)
  have 1: "BasicAuthCheckerFn demo_server plain_compare ''carol'' ''pw'' =
      Inr (False, zero_User, None)"
    using basic_auth_error_only_if_disabled [of demo_server plain_compare "''carol''" "''pw''"] g1
    by simp
  have 2: "BasicAuthCheckerFn demo_server plain_compare ''alice'' ''wrong'' =
      Inr (False, zero_User, None)"
    using basic_auth_error_only_if_disabled [of demo_server plain_compare "''alice''" "''wrong''"]
      g2 a
    by simp
  from g1 g2 a 1 2 show ?thesis by simp
qed

text \<open>
  \<^bold>\<open>C9.\<close> \<open>ClaimUpdateFn\<close> on claims with a user: if the store lookup of the user's name
  fails, the claims are returned unchanged. If it succeeds, the result is the input claims
  with only the \<open>User\<close> changed, and of the user only \<open>Role\<close> and \<open>Attributes\<close>: the role
  is the stored role, the attribute \<open>disabled\<close> is the stored flag, \<open>uid\<close> the stored id,
  and every other attribute key keeps the value it had.
\<close>

theorem claim_update_frame:
  assumes "User claims = Some cu"
  shows "(\<forall>err. Storage_GetUser s (tok_Name cu) = Inl err \<longrightarrow>
            ClaimUpdateFn s claims = Inr claims)
     \<and> (\<forall>u. Storage_GetUser s (tok_Name cu) = Inr u \<longrightarrow>
          (\<exists>attrs. ClaimUpdateFn s claims =
               Inr (claims\<lparr>User := Some (cu\<lparr>tok_Role := Role u,
                                              tok_Attributes := Some attrs\<rparr>)\<rparr>)
             \<and> attrs ''disabled'' = Some (BoolVal (Disabled u))
             \<and> attrs ''uid'' = Some (Int64Val (ID u))
             \<and> (\<forall>k. k \<noteq> ''disabled'' \<longrightarrow> k \<noteq> ''uid'' \<longrightarrow>
                   attrs k = (case tok_Attributes cu of None \<Rightarrow> None | Some m \<Rightarrow> m k))))"
proof (intro conjI allI impI)
  fix err
  assume "Storage_GetUser s (tok_Name cu) = Inl err"
  with assms show "ClaimUpdateFn s claims = Inr claims"
    by (simp add: ClaimUpdateFn_def)
next
  fix u
  assume g: "Storage_GetUser s (tok_Name cu) = Inr u"
  let ?attrs = "(case tok_Attributes cu of None \<Rightarrow> Map.empty | Some m \<Rightarrow> m)
      (''disabled'' \<mapsto> BoolVal (Disabled u), ''uid'' \<mapsto> Int64Val (ID u))"
  have "ClaimUpdateFn s claims =
      Inr (claims\<lparr>User := Some (cu\<lparr>tok_Role := Role u, tok_Attributes := Some ?attrs\<rparr>)\<rparr>)"
    by (rule ClaimUpdateFn_found [OF assms g])
  moreover have "?attrs ''disabled'' = Some (BoolVal (Disabled u))"
    and "?attrs ''uid'' = Some (Int64Val (ID u))"
    by simp_all
  moreover have "\<forall>k. k \<noteq> ''disabled'' \<longrightarrow> k \<noteq> ''uid'' \<longrightarrow>
      ?attrs k = (case tok_Attributes cu of None \<Rightarrow> None | Some m \<Rightarrow> m k)"
    by (simp split: option.splits)
  ultimately show "\<exists>attrs. ClaimUpdateFn s claims =
               Inr (claims\<lparr>User := Some (cu\<lparr>tok_Role := Role u,
                                              tok_Attributes := Some attrs\<rparr>)\<rparr>)
             \<and> attrs ''disabled'' = Some (BoolVal (Disabled u))
             \<and> attrs ''uid'' = Some (Int64Val (ID u))
             \<and> (\<forall>k. k \<noteq> ''disabled'' \<longrightarrow> k \<noteq> ''uid'' \<longrightarrow>
                   attrs k = (case tok_Attributes cu of None \<Rightarrow> None | Some m \<Rightarrow> m k))"
    by blast
qed

theorem claim_update_frame_witness:
  "User (demo_claims ''carol'') = Some (zero_User\<lparr>tok_Name := ''carol'', tok_Email := ''x@y''\<rparr>)
   \<and> ClaimUpdateFn demo_server (demo_claims ''carol'') = Inr (demo_claims ''carol'')
   \<and> (\<exists>attrs. ClaimUpdateFn demo_server (demo_claims ''alice'') =
         Inr ((demo_claims ''alice'')\<lparr>User :=
            Some (zero_User\<lparr>tok_Name := ''alice'', tok_Email := ''x@y'',
                    tok_Role := ''manager'', tok_Attributes := Some attrs\<rparr>)\<rparr>)
       \<and> attrs ''disabled'' = Some (BoolVal False)
       \<and> attrs ''uid'' = Some (Int64Val 42)
       \<and> attrs ''other'' = None)"
proof -
  have u1: "User (demo_claims ''carol'') =
      Some (zero_User\<lparr>tok_Name := ''carol'', tok_Email := ''x@y''\<rparr>)"
    and u2: "User (demo_claims ''alice'') =
      Some (zero_User\<lparr>tok_Name := ''alice'', tok_Email := ''x@y''\<rparr>)"
    by (simp_all add: demo_claims_def)
  have g1: "Storage_GetUser demo_server ''carol'' = Inl (StorageError ''user not found'')"
    and g2: "Storage_GetUser demo_server ''alice'' = Inr alice"
    by (simp_all add: demo_server_def)
  have 1: "ClaimUpdateFn demo_server (demo_claims ''carol'') = Inr (demo_claims ''carol'')"
    using claim_update_frame [OF u1, of demo_server] g1 by (simp add: zero_User_def)
  from claim_update_frame [OF u2, of demo_server] g2
  obtain attrs where a: "ClaimUpdateFn demo_server (demo_claims ''alice'') =
      Inr ((demo_claims ''alice'')\<lparr>User :=
        Some (zero_User\<lparr>tok_Name := ''alice'', tok_Email := ''x@y'',
                tok_Role := Role alice, tok_Attributes := Some attrs\<rparr>)\<rparr>)"
    and b: "attrs ''disabled'' = Some (BoolVal (Disabled alice))"
      "attrs ''uid'' = Some (Int64Val (ID alice))"
    and c: "\<forall>k. k \<noteq> ''disabled'' \<longrightarrow> k \<noteq> ''uid'' \<longrightarrow>
       attrs k = (case tok_Attributes (zero_User\<lparr>tok_Name := ''alice'', tok_Email := ''x@y''\<rparr>)
                  of None \<Rightarrow> None | Some m \<Rightarrow> m k)"
    by (auto simp: zero_User_def)
  from c have "attrs ''other'' = None"
    by (simp add: zero_User_def)
  with a b u1 1 show ?thesis
    by (auto simp: alice_def)
qed

text \<open>
  \<^bold>\<open>C10.\<close> For every user name and password \<open>Check\<close> returns the \<open>(ok, err)\<close> components
  of what \<open>BasicAuthCheckerFn\<close> returns for the same arguments; neither panics.
\<close>

theorem check_is_projection:
  "\<exists>ok c err. BasicAuthCheckerFn s cmp user password = Inr (ok, c, err)
      \<and> Check s cmp user password = Inr (ok, err)"
  by (cases "Storage_GetUser s user") (auto simp: Check_def BasicAuthCheckerFn_cases)

section \<open>Properties of the router\<close>

lemma pick_best_mem: "pick_best cs = Some h \<Longrightarrow> Some h \<in> snd ` set cs"
proof (induction cs rule: pick_best.induct)
  case 1
  then show ?case by simp
next
  case (2 c)
  then show ?case by simp
next
  case (3 c d cs)
  then show ?case by (auto split: if_splits)
qed

text \<open>
  Whenever serving runs a handler, the request passed every middleware in front of one of
  that handler's registrations.
\<close>

lemma candidates_guarded:
  "Some h \<in> snd ` set (candidates mws ds r path) \<Longrightarrow>
     \<exists>chain \<in> set (guards mws ds h). list_all (passes r) chain"
proof (induction mws ds r path rule: candidates.induct)
  case (1 mws r path)
  then show ?case by simp
next
  case (2 mws ms ds r path)
  then show ?case by simp
next
  case (3 mws m pat h' ds r path)
  then show ?case by (auto simp: image_Un split: if_splits)
next
  case (4 mws gs ds r path)
  then show ?case by (auto simp: image_Un)
next
  case (5 mws pre sub ds r path)
  show ?case
  proof (cases "match_mount pre path")
    case None
    with 5 show ?thesis by (auto simp: image_Un)
  next
    case (Some rest)
    with "5.prems" have "pick_best (candidates mws sub r rest) = Some h
        \<or> Some h \<in> snd ` set (candidates mws ds r path)"
      by (auto simp: image_Un)
    then show ?thesis
    proof
      assume "pick_best (candidates mws sub r rest) = Some h"
      then have "Some h \<in> snd ` set (candidates mws sub r rest)"
        by (rule pick_best_mem)
      with "5.IH"(1) [OF Some] show ?thesis by auto
    next
      assume "Some h \<in> snd ` set (candidates mws ds r path)"
      with "5.IH"(2) show ?thesis by auto
    qed
  qed
next
  case (6 mws pre h' ds r path)
  then show ?case by (auto simp: image_Un split: option.splits if_splits)
qed

lemma ServeHTTP_guarded:
  "ServeHTTP ds r = Some h \<Longrightarrow> \<exists>chain \<in> set (guards [] ds h). list_all (passes r) chain"
  unfolding ServeHTTP_def by (rule candidates_guarded [OF pick_best_mem])

lemmas router_defs =
  router_def registry_routes_def users_routes_def groups_routes_def access_routes_def

lemmas serve_defs =
  ServeHTTP_def match_mount_def match_pattern_def strip_prefix_def pattern_rank_def better_def

lemma guards_catalogList:
  "guards [] router catalogList =
     [[Throttle 1000, RealIP, Recoverer, Timeout 30, Ping, Cors, AccessLog,
       LimitHandler 10, Trace, NoCache, Auth, NoCache]]"
  by (simp add: router_defs)

lemma guards_imageConfig:
  "guards [] router imageConfig =
     [[Throttle 1000, RealIP, Recoverer, Timeout 30, Ping, Cors, AccessLog,
       LimitHandler 10, Trace, NoCache, Auth, NoCache, RBAC [''admin'', ''manager'']]]"
  by (simp add: router_defs)

lemma guards_syncRepositories:
  "guards [] router syncRepositories =
     [[Throttle 1000, RealIP, Recoverer, Timeout 30, Ping, Cors, AccessLog,
       LimitHandler 10, Trace, NoCache, RBAC [''admin'']]]"
  by (simp add: router_defs)

lemma guards_deleteDigest:
  "guards [] router deleteDigest =
     [[Throttle 1000, RealIP, Recoverer, Timeout 30, Ping, Cors, AccessLog,
       LimitHandler 10, Trace, NoCache, RBAC [''admin'']]]"
  by (simp add: router_defs)

lemma serve_catalog:
  "req_method r = GET \<Longrightarrow> req_path r = ''/api/v1/registry/catalog'' \<Longrightarrow>
     ServeHTTP router r = (if req_user r \<noteq> None then Some catalogList else None)"
  by (simp add: serve_defs router_defs)

lemma serve_blobs:
  "req_method r = GET \<Longrightarrow> req_path r = ''/api/v1/registry/catalog/blobs'' \<Longrightarrow>
     ServeHTTP router r =
       (if req_user r \<noteq> None \<and> passes r (RBAC [''admin'', ''manager''])
        then Some imageConfig else None)"
  by (simp add: serve_defs router_defs)

lemma serve_sync:
  "req_method r = GET \<Longrightarrow> req_path r = ''/api/v1/registry/sync'' \<Longrightarrow>
     ServeHTTP router r = (if passes r (RBAC [''admin'']) then Some syncRepositories else None)"
  by (simp add: serve_defs router_defs)

lemma serve_delete:
  "req_method r = DELETE \<Longrightarrow> req_path r = ''/api/v1/registry/catalog/'' @ digest \<Longrightarrow>
     ServeHTTP router r = (if passes r (RBAC [''admin'']) then Some deleteDigest else None)"
  by (simp add: serve_defs router_defs)

lemma EqualFold_simps:
  "EqualFold ''admin'' ''user'' = False"
  "EqualFold ''manager'' ''user'' = False"
  "EqualFold ''admin'' ''manager'' = False"
  "EqualFold ''manager'' ''manager'' = True"
  "EqualFold ''admin'' ''Admin'' = True"
  by (simp_all add: EqualFold_def to_lower_def)


text \<open>
  \<^bold>\<open>C3\<close>, as stated, puts \<open>GET /registry/catalog\<close> behind a role check admitting admin and
  manager. The route is registered behind \<open>Auth\<close> only (server.go 334-339, with the
  comment that any user may list repositories): a session of role \<open>user\<close> reaches
  \<open>catalogList\<close> although the role check for admin and manager rejects it.
\<close>

theorem catalog_open_to_user_role_counterexample:
  "ServeHTTP router (catalog_request (Some (session_of ''carol'' ''user''))) = Some catalogList
   \<and> \<not> passes (catalog_request (Some (session_of ''carol'' ''user'')))
         (RBAC [''admin'', ''manager''])"
  by (simp add: serve_catalog catalog_request_def session_of_def EqualFold_simps)

text \<open>
  \<^bold>\<open>C3\<close>, amended. For every request: \<open>catalogList\<close> runs only for a request with an
  authenticated session (any role); \<open>imageConfig\<close> only for a session whose role is admin
  or manager; \<open>syncRepositories\<close> and \<open>deleteDigest\<close> only for a session whose role is
  admin (role names compared without regard to case). The four paths reach exactly these
  handlers: \<open>GET /api/v1/registry/catalog\<close> runs \<open>catalogList\<close> if and only if the request
  has a session, \<open>GET .../catalog/blobs\<close> runs \<open>imageConfig\<close> iff the session's role is
  admin or manager, \<open>GET .../sync\<close> and \<open>DELETE .../catalog/<digest>\<close> run their handlers
  iff the session's role is admin.
\<close>

theorem registry_routes_guarded:
  "(ServeHTTP router r = Some catalogList \<longrightarrow> req_user r \<noteq> None)
   \<and> (ServeHTTP router r = Some imageConfig \<longrightarrow>
        (\<exists>u. req_user r = Some u
           \<and> (EqualFold ''admin'' (tok_Role u) \<or> EqualFold ''manager'' (tok_Role u))))
   \<and> (ServeHTTP router r = Some syncRepositories \<longrightarrow>
        (\<exists>u. req_user r = Some u \<and> EqualFold ''admin'' (tok_Role u)))
   \<and> (ServeHTTP router r = Some deleteDigest \<longrightarrow>
        (\<exists>u. req_user r = Some u \<and> EqualFold ''admin'' (tok_Role u)))
   \<and> ServeHTTP router (catalog_request who) =
        (if who \<noteq> None then Some catalogList else None)
   \<and> ServeHTTP router (blobs_request who) =
        (if \<exists>u. who = Some u
              \<and> (EqualFold ''admin'' (tok_Role u) \<or> EqualFold ''manager'' (tok_Role u))
         then Some imageConfig else None)
   \<and> ServeHTTP router (sync_request who) =
        (if \<exists>u. who = Some u \<and> EqualFold ''admin'' (tok_Role u)
         then Some syncRepositories else None)
   \<and> ServeHTTP router (delete_request digest who) =
        (if \<exists>u. who = Some u \<and> EqualFold ''admin'' (tok_Role u)
         then Some deleteDigest else None)"
proof (intro conjI impI)
  assume "ServeHTTP router r = Some catalogList"
  from ServeHTTP_guarded [OF this] show "req_user r \<noteq> None"
    by (simp add: guards_catalogList)
next
  assume "ServeHTTP router r = Some imageConfig"
  from ServeHTTP_guarded [OF this]
  show "\<exists>u. req_user r = Some u
      \<and> (EqualFold ''admin'' (tok_Role u) \<or> EqualFold ''manager'' (tok_Role u))"
    by (auto simp: guards_imageConfig split: option.splits)
next
  assume "ServeHTTP router r = Some syncRepositories"
  from ServeHTTP_guarded [OF this]
  show "\<exists>u. req_user r = Some u \<and> EqualFold ''admin'' (tok_Role u)"
    by (auto simp: guards_syncRepositories split: option.splits)
next
  assume "ServeHTTP router r = Some deleteDigest"
  from ServeHTTP_guarded [OF this]
  show "\<exists>u. req_user r = Some u \<and> EqualFold ''admin'' (tok_Role u)"
    by (auto simp: guards_deleteDigest split: option.splits)
next
  show "ServeHTTP router (catalog_request who) =
      (if who \<noteq> None then Some catalogList else None)"
    by (simp add: serve_catalog catalog_request_def)
next
  show "ServeHTTP router (blobs_request who) =
      (if \<exists>u. who = Some u
            \<and> (EqualFold ''admin'' (tok_Role u) \<or> EqualFold ''manager'' (tok_Role u))
       then Some imageConfig else None)"
    by (cases who) (simp_all add: serve_blobs blobs_request_def)
next
  show "ServeHTTP router (sync_request who) =
      (if \<exists>u. who = Some u \<and> EqualFold ''admin'' (tok_Role u)
       then Some syncRepositories else None)"
    by (cases who) (simp_all add: serve_sync sync_request_def)
next
  show "ServeHTTP router (delete_request digest who) =
      (if \<exists>u. who = Some u \<and> EqualFold ''admin'' (tok_Role u)
       then Some deleteDigest else None)"
    by (cases who) (simp_all add: serve_delete delete_request_def)
qed

theorem registry_routes_guarded_witness:
  "ServeHTTP router (blobs_request (Some (session_of ''alice'' ''manager''))) = Some imageConfig
   \<and> (\<exists>u. req_user (blobs_request (Some (session_of ''alice'' ''manager''))) = Some u
         \<and> (EqualFold ''admin'' (tok_Role u) \<or> EqualFold ''manager'' (tok_Role u)))
   \<and> ServeHTTP router (catalog_request (Some (session_of ''carol'' ''user''))) = Some catalogList
   \<and> ServeHTTP router (catalog_request None) = None
   \<and> ServeHTTP router (blobs_request (Some (session_of ''carol'' ''user''))) = None
   \<and> ServeHTTP router (sync_request (Some (session_of ''root'' ''Admin''))) = Some syncRepositories
   \<and> ServeHTTP router (sync_request (Some (session_of ''alice'' ''manager''))) = None
   \<and> ServeHTTP router (delete_request ''sha256:0a1b'' (Some (session_of ''root'' ''Admin'')))
       = Some deleteDigest
   \<and> ServeHTTP router (delete_request ''sha256:0a1b'' None) = None"
proof -
  let ?alice = "Some (session_of ''alice'' ''manager'')"
  let ?carol = "Some (session_of ''carol'' ''user'')"
  let ?root = "Some (session_of ''root'' ''Admin'')"
  have 1: "ServeHTTP router (blobs_request ?alice) = Some imageConfig"
    using registry_routes_guarded [of "blobs_request ?alice" ?alice]
    by (simp add: session_of_def EqualFold_simps)
  have 2: "\<exists>u. req_user (blobs_request ?alice) = Some u
      \<and> (EqualFold ''admin'' (tok_Role u) \<or> EqualFold ''manager'' (tok_Role u))"
    using registry_routes_guarded [of "blobs_request ?alice" ?alice] 1
    by blast
  have 3: "ServeHTTP router (catalog_request ?carol) = Some catalogList"
    "ServeHTTP router (blobs_request ?carol) = None"
    using registry_routes_guarded [of "catalog_request ?carol" ?carol]
    by (simp_all add: session_of_def EqualFold_simps)
  have 4: "ServeHTTP router (catalog_request None) = None"
    "ServeHTTP router (delete_request ''sha256:0a1b'' None) = None"
    using registry_routes_guarded [of "catalog_request None" None "''sha256:0a1b''"]
    by simp_all
  have 5: "ServeHTTP router (sync_request ?root) = Some syncRepositories"
    "ServeHTTP router (delete_request ''sha256:0a1b'' ?root) = Some deleteDigest"
    using registry_routes_guarded [of "sync_request ?root" ?root "''sha256:0a1b''"]
    by (simp_all add: session_of_def EqualFold_simps)
  have 6: "ServeHTTP router (sync_request ?alice) = None"
    using registry_routes_guarded [of "sync_request ?alice" ?alice]
    by (simp add: session_of_def EqualFold_simps)
  from 1 2 3 4 5 6 show ?thesis by simp
qed

section \<open>Properties of startup\<close>

text \<open>\<open>Run\<close> after the normalisation of \<open>Listen\<close>, by SSL mode.\<close>

lemma Run_cases:
  "Run s0 =
     (let s = (if Listen s0 = ''*'' then s0\<lparr>Listen := []\<rparr> else s0);
          http = listen_addr (Listen s) (Port s0);
          https = listen_addr (Listen s) (ssl_Port (SSLConfig s0)) in
      case RegistryService s0 of
        None \<Rightarrow> ([], Returned (Some (Errorf ''a registry service define required '')))
      | Some reg \<Rightarrow>
          (case SSLMode (SSLConfig s0) of
             SSLOther k \<Rightarrow> ([], Returned None)
           | mode \<Rightarrow>
              (case UpdateHtpasswd reg of
                 Some err \<Rightarrow>
                   ([CallUpdateHtpasswd],
                    Panicked (Panic (''failed to update htpasswd: '' @ error_text err)))
               | None \<Rightarrow>
                   ([CallUpdateHtpasswd,
                     CallRepositoriesMaintenance (GarbageCollectorInterval s0)]
                    @ (if mode = SSLNone then [ListenAndServe http (MainRouter router)]
                       else if mode = SSLStatic
                       then [ListenAndServe http HTTPSRedirect,
                             ListenAndServeTLS https (MainRouter router)]
                       else [ListenAndServe http ACMEChallenge,
                             ListenAndServeTLS https (MainRouter router)]),
                    Serving))))"
  by (cases "Listen s0 = ''*''")
     (simp_all add: Run_def routes_def Let_def split: option.splits sslMode.splits)

lemma Run_sync_fails:
  assumes "RegistryService s = Some reg" and "UpdateHtpasswd reg = Some err"
    and "\<forall>k. SSLMode (SSLConfig s) \<noteq> SSLOther k"
  shows "Run s =
     ([CallUpdateHtpasswd], Panicked (Panic (''failed to update htpasswd: '' @ error_text err)))"
  using assms
  by (cases "SSLMode (SSLConfig s)") (simp_all add: Run_cases Let_def)

lemma Run_serving:
  assumes "snd (Run s) = Serving"
  shows "\<exists>rest. fst (Run s) = CallUpdateHtpasswd # rest
     \<and> CallUpdateHtpasswd \<notin> set rest \<and> list_ex is_listen rest"
  using assms
  by (cases "SSLMode (SSLConfig s)")
     (auto simp: Run_cases Let_def split: option.splits)

text \<open>
  \<^bold>\<open>C4\<close>, as stated, lets the server keep handling requests when the credential-file sync
  fails at startup. \<open>routes\<close> panics on that failure (server.go 252-254): \<open>Run\<close> ends in
  the panic, the maintenance tasks are not started and no listener is ever started.
\<close>

theorem sync_failure_stops_startup_counterexample:
  "Run broken_htpasswd_server =
     ([CallUpdateHtpasswd],
      Panicked (Panic (''failed to update htpasswd: ''
                         @ ''open /etc/registry/.htpasswd: permission denied'')))
   \<and> \<not> list_ex is_listen (fst (Run broken_htpasswd_server))
   \<and> snd (Run broken_htpasswd_server) \<noteq> Serving"
  by (simp add: Run_def routes_def Let_def broken_htpasswd_server_def demo_server_def)

text \<open>
  \<^bold>\<open>C4\<close>, amended. Whenever \<open>Run\<close> gets to serve, the credential-file synchronizer was
  called exactly once, as the first effect of startup and before any listener was
  started. If that call fails (in any of the three SSL modes) startup does not go on:
  \<open>routes\<close> panics with "failed to update htpasswd: ...", with the sync call as the only
  effect, so no listener and no maintenance task is started.
\<close>

theorem htpasswd_sync_once_at_startup:
  "(snd (Run s) = Serving \<longrightarrow>
      (\<exists>rest. fst (Run s) = CallUpdateHtpasswd # rest
         \<and> CallUpdateHtpasswd \<notin> set rest \<and> list_ex is_listen rest))
   \<and> (\<forall>reg err. RegistryService s = Some reg \<longrightarrow> UpdateHtpasswd reg = Some err \<longrightarrow>
         (\<forall>k. SSLMode (SSLConfig s) \<noteq> SSLOther k) \<longrightarrow>
         Run s = ([CallUpdateHtpasswd],
                  Panicked (Panic (''failed to update htpasswd: '' @ error_text err))))"
  using Run_serving Run_sync_fails by blast

theorem htpasswd_sync_once_at_startup_witness:
  "snd (Run demo_server) = Serving
   \<and> fst (Run demo_server) =
       [CallUpdateHtpasswd, CallRepositoriesMaintenance 3600,
        ListenAndServe '':80'' (MainRouter router)]
   \<and> RegistryService broken_htpasswd_server =
       Some \<lparr>UpdateHtpasswd = Some (Errorf ''open /etc/registry/.htpasswd: permission denied'')\<rparr>
   \<and> snd (Run broken_htpasswd_server) =
       Panicked (Panic (''failed to update htpasswd: ''
                          @ ''open /etc/registry/.htpasswd: permission denied''))"
proof -
  have port: "FormatInt10 80 = ''80''"
    by (simp add: FormatInt10_def format_nat.simps digit_char_def)
  have run: "Run demo_server =
      ([CallUpdateHtpasswd, CallRepositoriesMaintenance 3600,
        ListenAndServe '':80'' (MainRouter router)], Serving)"
    by (simp add: Run_def routes_def Let_def demo_server_def listen_addr_def port)
  then have srv: "snd (Run demo_server) = Serving"
    by simp
  from htpasswd_sync_once_at_startup [of demo_server] srv
  obtain rest where "fst (Run demo_server) = CallUpdateHtpasswd # rest"
    and "CallUpdateHtpasswd \<notin> set rest" and "list_ex is_listen rest"
    by blast
  with run have 1: "fst (Run demo_server) =
      [CallUpdateHtpasswd, CallRepositoriesMaintenance 3600,
       ListenAndServe '':80'' (MainRouter router)]"
    by simp
  have reg: "RegistryService broken_htpasswd_server =
      Some \<lparr>UpdateHtpasswd = Some (Errorf ''open /etc/registry/.htpasswd: permission denied'')\<rparr>"
    by (simp add: broken_htpasswd_server_def)
  have mode: "\<forall>k. SSLMode (SSLConfig broken_htpasswd_server) \<noteq> SSLOther k"
    by (simp add: broken_htpasswd_server_def demo_server_def)
  have 2: "snd (Run broken_htpasswd_server) =
       Panicked (Panic (''failed to update htpasswd: ''
                          @ ''open /etc/registry/.htpasswd: permission denied''))"
    using htpasswd_sync_once_at_startup [of broken_htpasswd_server] reg mode
    by simp
  from srv 1 reg 2 show ?thesis by simp
qed

section \<open>Properties of the maintenance scheduler\<close>

lemma guard_inv_initial: "guard_inv (RepositoriesMaintenance interval)"
  by (simp add: guard_inv_def RepositoriesMaintenance_def)

lemma guard_inv_step: "guard_inv s \<Longrightarrow> guard_inv (step s e)"
  by (cases e) (auto simp: guard_inv_def split: if_splits)

lemma guard_inv_run_events: "guard_inv s \<Longrightarrow> guard_inv (run_events s es)"
  by (induction es arbitrary: s) (simp_all add: guard_inv_step)

lemma skipped_tick:
  assumes "guard_inv s" and "active_runs s = 1"
  shows "step s Tick =
     s\<lparr>ticks_skipped := ticks_skipped s + (if enabled s \<and> \<not> cancelled s then 1 else 0)\<rparr>"
proof -
  have held: "guard_held s"
  proof (rule ccontr)
    assume "\<not> guard_held s"
    with assms(1) have "active_runs s = 0"
      by (simp add: guard_inv_def)
    with assms(2) show False
      by simp
  qed
  show ?thesis
  proof (cases "enabled s \<and> \<not> cancelled s")
    case True
    with held show ?thesis by simp
  next
    case False
    then have "step s Tick = s" by auto
    with False show ?thesis by simp
  qed
qed

lemma step_skip_count:
  "step (s\<lparr>ticks_skipped := ticks_skipped s + k\<rparr>) e =
     (step s e)\<lparr>ticks_skipped := ticks_skipped (step s e) + k\<rparr>"
  by (cases e) simp_all

lemma run_events_skip_count:
  "run_events (s\<lparr>ticks_skipped := ticks_skipped s + k\<rparr>) es =
     (run_events s es)\<lparr>ticks_skipped := ticks_skipped (run_events s es) + k\<rparr>"
proof (induction es arbitrary: s)
  case Nil
  show ?case by simp
next
  case (Cons e es)
  have "run_events (s\<lparr>ticks_skipped := ticks_skipped s + k\<rparr>) (e # es) =
      run_events ((step s e)\<lparr>ticks_skipped := ticks_skipped (step s e) + k\<rparr>) es"
    by (simp only: run_events.simps step_skip_count)
  also have "\<dots> = (run_events (step s e) es)
      \<lparr>ticks_skipped := ticks_skipped (run_events (step s e) es) + k\<rparr>"
    by (rule Cons.IH)
  finally show ?case by (simp only: run_events.simps)
qed

text \<open>
  \<^bold>\<open>C5.\<close> In every state the scheduler started by \<open>RepositoriesMaintenance\<close> can reach,
  whatever the interval and the sequence of ticks, run completions and cancellation, at
  most one run is in progress. A tick that fires while a run is in progress starts no
  run and records no failure: the state it leaves is the state before with only the count
  of skipped ticks raised. The tick is not queued either: whatever events follow, the
  scheduler goes through the same states as if the tick had not fired, apart from that
  count, so the runs started, the runs in progress, the garbage collections and the
  recorded failures are the same.
\<close>

theorem at_most_one_maintenance_run:
  "active_runs (run_events (RepositoriesMaintenance interval) es) \<le> 1
   \<and> (active_runs (run_events (RepositoriesMaintenance interval) es) = 1 \<longrightarrow>
        (let s = run_events (RepositoriesMaintenance interval) es; s' = step s Tick;
             k = (if enabled s \<and> \<not> cancelled s then 1 else 0) in
           s' = s\<lparr>ticks_skipped := ticks_skipped s + k\<rparr>
           \<and> active_runs s' = 1
           \<and> runs_started s' = runs_started s
           \<and> failures s' = failures s
           \<and> (\<forall>later.
                 run_events s' later =
                   (run_events s later)\<lparr>ticks_skipped := ticks_skipped (run_events s later) + k\<rparr>
                 \<and> runs_started (run_events s' later) = runs_started (run_events s later)
                 \<and> active_runs (run_events s' later) = active_runs (run_events s later)
                 \<and> gc_runs (run_events s' later) = gc_runs (run_events s later)
                 \<and> failures (run_events s' later) = failures (run_events s later))))"
proof -
  let ?s = "run_events (RepositoriesMaintenance interval) es"
  let ?k = "if enabled ?s \<and> \<not> cancelled ?s then 1 else 0 :: nat"
  have inv: "guard_inv ?s"
    by (rule guard_inv_run_events [OF guard_inv_initial])
  then have le: "active_runs ?s \<le> 1"
    by (simp add: guard_inv_def)
  have "step ?s Tick = ?s\<lparr>ticks_skipped := ticks_skipped ?s + ?k\<rparr>
      \<and> active_runs (step ?s Tick) = 1
      \<and> runs_started (step ?s Tick) = runs_started ?s
      \<and> failures (step ?s Tick) = failures ?s
      \<and> (\<forall>later.
            run_events (step ?s Tick) later =
              (run_events ?s later)\<lparr>ticks_skipped := ticks_skipped (run_events ?s later) + ?k\<rparr>
            \<and> runs_started (run_events (step ?s Tick) later) = runs_started (run_events ?s later)
            \<and> active_runs (run_events (step ?s Tick) later) = active_runs (run_events ?s later)
            \<and> gc_runs (run_events (step ?s Tick) later) = gc_runs (run_events ?s later)
            \<and> failures (run_events (step ?s Tick) later) = failures (run_events ?s later))"
    if one: "active_runs ?s = 1"
  proof -
    note eq = skipped_tick [OF inv one]
    have now: "active_runs (step ?s Tick) = active_runs ?s"
      "runs_started (step ?s Tick) = runs_started ?s"
      "failures (step ?s Tick) = failures ?s"
      by (subst eq, simp)+
    have later: "run_events (step ?s Tick) later =
        (run_events ?s later)\<lparr>ticks_skipped := ticks_skipped (run_events ?s later) + ?k\<rparr>"
      for later
      by (subst eq) (rule run_events_skip_count)
    have "runs_started (run_events (step ?s Tick) later) = runs_started (run_events ?s later)"
      and "active_runs (run_events (step ?s Tick) later) = active_runs (run_events ?s later)"
      and "gc_runs (run_events (step ?s Tick) later) = gc_runs (run_events ?s later)"
      and "failures (run_events (step ?s Tick) later) = failures (run_events ?s later)"
      for later
      by (subst later, simp)+
    with eq now one later show ?thesis by simp
  qed
  with le show ?thesis
    by (simp only: Let_def) blast
qed

theorem at_most_one_maintenance_run_witness:
  "active_runs (run_events (RepositoriesMaintenance 60) [Tick]) = 1
   \<and> step (run_events (RepositoriesMaintenance 60) [Tick]) Tick =
       \<lparr>enabled = True, cancelled = False, guard_held = True, active_runs = 1,
        runs_started = 1, ticks_skipped = 1, gc_runs = 0, failures = []\<rparr>
   \<and> run_events (RepositoriesMaintenance 60) [Tick, Tick, RunDone True] =
       \<lparr>enabled = True, cancelled = False, guard_held = False, active_runs = 0,
        runs_started = 1, ticks_skipped = 1, gc_runs = 1, failures = []\<rparr>
   \<and> run_events (RepositoriesMaintenance 60) [Tick, Tick, RunDone True, Tick] =
       \<lparr>enabled = True, cancelled = False, guard_held = True, active_runs = 1,
        runs_started = 2, ticks_skipped = 1, gc_runs = 1, failures = []\<rparr>"
proof -
  let ?s = "run_events (RepositoriesMaintenance 60) [Tick]"
  have s: "?s = \<lparr>enabled = True, cancelled = False, guard_held = True, active_runs = 1,
      runs_started = 1, ticks_skipped = 0, gc_runs = 0, failures = []\<rparr>"
    by (simp add: RepositoriesMaintenance_def)
  have a: "active_runs ?s = 1"
    by (simp only: s) simp
  have k: "(if enabled ?s \<and> \<not> cancelled ?s then 1 else 0 :: nat) = 1"
    by (simp only: s) simp
  note th = at_most_one_maintenance_run [of 60 "[Tick]", unfolded Let_def k]
  from th a
  have e: "step ?s Tick = ?s\<lparr>ticks_skipped := ticks_skipped ?s + 1\<rparr>"
    by blast
  have v: "?s\<lparr>ticks_skipped := ticks_skipped ?s + 1\<rparr> =
       \<lparr>enabled = True, cancelled = False, guard_held = True, active_runs = 1,
        runs_started = 1, ticks_skipped = 1, gc_runs = 0, failures = []\<rparr>"
    by (simp only: s) simp
  from e v have 1: "step ?s Tick =
       \<lparr>enabled = True, cancelled = False, guard_held = True, active_runs = 1,
        runs_started = 1, ticks_skipped = 1, gc_runs = 0, failures = []\<rparr>"
    by (rule trans)
  from th a
  have l: "run_events (step ?s Tick) [RunDone True] =
      (run_events ?s [RunDone True])
        \<lparr>ticks_skipped := ticks_skipped (run_events ?s [RunDone True]) + 1\<rparr>"
    by blast
  have d: "run_events ?s [RunDone True] =
       \<lparr>enabled = True, cancelled = False, guard_held = False, active_runs = 0,
        runs_started = 1, ticks_skipped = 0, gc_runs = 1, failures = []\<rparr>"
    by (simp add: RepositoriesMaintenance_def)
  have two: "run_events (RepositoriesMaintenance 60) [Tick, Tick, RunDone True] =
      run_events (step ?s Tick) [RunDone True]"
    by simp
  have 2: "run_events (RepositoriesMaintenance 60) [Tick, Tick, RunDone True] =
       \<lparr>enabled = True, cancelled = False, guard_held = False, active_runs = 0,
        runs_started = 1, ticks_skipped = 1, gc_runs = 1, failures = []\<rparr>"
    by (simp only: two l d) simp
  have 3: "run_events (RepositoriesMaintenance 60) [Tick, Tick, RunDone True, Tick] =
       \<lparr>enabled = True, cancelled = False, guard_held = True, active_runs = 1,
        runs_started = 2, ticks_skipped = 1, gc_runs = 1, failures = []\<rparr>"
    by (simp add: RepositoriesMaintenance_def)
  from a 1 2 3 show ?thesis
    by (intro conjI)
qed

section \<open>Properties of the registry client\<close>

lemma translate_reply_simps:
  "translate_reply (HTTPStatus 200) = None"
  "translate_reply (HTTPStatus 202) = None"
  "translate_reply (HTTPStatus 401) = Some AuthorizationDenied"
  "translate_reply (HTTPStatus 403) = Some AuthorizationDenied"
  "translate_reply (HTTPStatus 404) = Some NotFound"
  "translate_reply (HTTPStatus 503) = Some UpstreamUnavailable"
  "translate_reply NoResponse = Some UpstreamUnavailable"
  "translate_reply (HTTPStatus 400) = Some UpstreamProtocolError"
  by (simp_all add: translate_reply_def)

lemma DeleteTag_error: "fst (DeleteTag up reply repoName digest) = translate_reply reply"
  by (simp add: DeleteTag_def split: option.splits)

lemma DeleteTag_failed:
  "fst (DeleteTag up reply repoName digest) = Some e \<Longrightarrow>
     snd (DeleteTag up reply repoName digest) = up"
  by (simp add: DeleteTag_def split: option.splits)

lemma DeleteTag_not_a_digest:
  assumes "reference \<notin> set (digests_of up repoName)"
  shows "snd (DeleteTag up reply repoName reference) = up"
proof -
  from assms have "filter (\<lambda>td. snd td \<noteq> reference) (up repoName) = up repoName"
    by (auto simp: digests_of_def filter_id_conv)
  then show ?thesis
    by (simp add: DeleteTag_def split: option.splits)
qed

lemma Manifest_tag:
  assumes "map_of (up repoName) tag = Some digest"
  shows "Manifest up reply repoName tag =
     (case translate_reply reply of Some e \<Rightarrow> Inl e | None \<Rightarrow> Inr digest)"
  using assms by (simp add: Manifest_def resolve_reference_def split: option.splits)

lemma DeleteTag_succeeded:
  assumes "fst (DeleteTag up reply repoName digest) = None"
  shows "snd (DeleteTag up reply repoName digest) =
     up(repoName := filter (\<lambda>td. snd td \<noteq> digest) (up repoName))"
  using assms by (simp add: DeleteTag_def split: option.splits)

text \<open>
  \<^bold>\<open>C6.\<close> Deletion is by digest only, for every answer the upstream may give.
  \<open>DeleteTag\<close> returns the translated upstream error or nil, and a failed call leaves the
  registry as it was. A reference that is not the digest of a manifest of the repository
  (a tag name, say) deletes nothing, so a tag is deleted by resolving it first: a
  successful \<open>Manifest\<close> of the tag yields the digest the tag points to. A successful
  \<open>DeleteTag\<close> of that digest leaves no tag pointing to it (the given tag and every other
  tag that referenced it are gone), keeps every tag of another digest and changes no
  other repository; resolving and deleting in sequence does exactly that.
\<close>

theorem delete_is_by_digest:
  "fst (DeleteTag up reply repoName reference) = translate_reply reply
   \<and> (\<forall>e. fst (DeleteTag up reply repoName reference) = Some e \<longrightarrow>
         snd (DeleteTag up reply repoName reference) = up)
   \<and> (reference \<notin> set (digests_of up repoName) \<longrightarrow>
         snd (DeleteTag up reply repoName reference) = up)
   \<and> (map_of (up repoName) tag = Some digest \<longrightarrow>
        (\<forall>d. Manifest up fetch_reply repoName tag = Inr d \<longrightarrow> d = digest)
        \<and> (translate_reply fetch_reply = None \<longrightarrow>
              Manifest up fetch_reply repoName tag = Inr digest
              \<and> delete_tag_by_name up fetch_reply reply repoName tag =
                  DeleteTag up reply repoName digest)
        \<and> (fst (DeleteTag up reply repoName digest) = None \<longrightarrow>
              tags_pointing_to (snd (DeleteTag up reply repoName digest)) repoName digest = []
              \<and> (\<forall>t. (t, digest) \<notin> set (snd (DeleteTag up reply repoName digest) repoName))
              \<and> tag \<in> set (tags_pointing_to up repoName digest)
              \<and> (\<forall>t d. d \<noteq> digest \<longrightarrow>
                    ((t, d) \<in> set (snd (DeleteTag up reply repoName digest) repoName))
                      = ((t, d) \<in> set (up repoName)))
              \<and> (\<forall>other. other \<noteq> repoName \<longrightarrow>
                    snd (DeleteTag up reply repoName digest) other = up other)))"
proof (intro conjI impI allI)
  show "fst (DeleteTag up reply repoName reference) = translate_reply reply"
    by (rule DeleteTag_error)
next
  fix e
  assume "fst (DeleteTag up reply repoName reference) = Some e"
  then show "snd (DeleteTag up reply repoName reference) = up"
    by (rule DeleteTag_failed)
next
  assume "reference \<notin> set (digests_of up repoName)"
  then show "snd (DeleteTag up reply repoName reference) = up"
    by (rule DeleteTag_not_a_digest)
next
  fix d
  assume "map_of (up repoName) tag = Some digest"
    and "Manifest up fetch_reply repoName tag = Inr d"
  then show "d = digest"
    by (simp add: Manifest_tag split: option.splits)
next
  assume "map_of (up repoName) tag = Some digest" and "translate_reply fetch_reply = None"
  then show "Manifest up fetch_reply repoName tag = Inr digest"
    by (simp add: Manifest_tag)
next
  assume "map_of (up repoName) tag = Some digest" and "translate_reply fetch_reply = None"
  then show "delete_tag_by_name up fetch_reply reply repoName tag =
      DeleteTag up reply repoName digest"
    by (simp add: delete_tag_by_name_def Manifest_tag)
next
  assume "fst (DeleteTag up reply repoName digest) = None"
  then show "tags_pointing_to (snd (DeleteTag up reply repoName digest)) repoName digest = []"
    by (simp add: DeleteTag_succeeded tags_pointing_to_def filter_empty_conv)
next
  fix t
  assume "fst (DeleteTag up reply repoName digest) = None"
  then show "(t, digest) \<notin> set (snd (DeleteTag up reply repoName digest) repoName)"
    by (simp add: DeleteTag_succeeded)
next
  assume "map_of (up repoName) tag = Some digest"
  then have "(tag, digest) \<in> set (up repoName)"
    by (rule map_of_SomeD)
  then show "tag \<in> set (tags_pointing_to up repoName digest)"
    by (force simp: tags_pointing_to_def)
next
  fix t d
  assume "fst (DeleteTag up reply repoName digest) = None" and "d \<noteq> digest"
  then show "((t, d) \<in> set (snd (DeleteTag up reply repoName digest) repoName))
      = ((t, d) \<in> set (up repoName))"
    by (simp add: DeleteTag_succeeded)
next
  fix other
  assume "fst (DeleteTag up reply repoName digest) = None" and "other \<noteq> repoName"
  then show "snd (DeleteTag up reply repoName digest) other = up other"
    by (simp add: DeleteTag_succeeded)
qed

theorem delete_is_by_digest_witness:
  "map_of (demo_upstream ''team/app'') ''latest'' = Some ''sha256:aa''
   \<and> ''latest'' \<notin> set (digests_of demo_upstream ''team/app'')
   \<and> DeleteTag demo_upstream (HTTPStatus 202) ''team/app'' ''latest'' = (None, demo_upstream)
   \<and> DeleteTag demo_upstream (HTTPStatus 503) ''team/app'' ''sha256:aa'' =
       (Some UpstreamUnavailable, demo_upstream)
   \<and> Manifest demo_upstream (HTTPStatus 200) ''team/app'' ''latest'' = Inr ''sha256:aa''
   \<and> fst (delete_tag_by_name demo_upstream (HTTPStatus 200) (HTTPStatus 202)
            ''team/app'' ''latest'') = None
   \<and> snd (delete_tag_by_name demo_upstream (HTTPStatus 200) (HTTPStatus 202)
            ''team/app'' ''latest'') ''team/app'' = [(''v0'', ''sha256:bb'')]"
proof -
  have m: "map_of (demo_upstream ''team/app'') ''latest'' = Some ''sha256:aa''"
    by (simp add: demo_upstream_def)
  have n: "''latest'' \<notin> set (digests_of demo_upstream ''team/app'')"
    by (simp add: digests_of_def demo_upstream_def)
  have ok200: "translate_reply (HTTPStatus 200) = None"
    and ok202: "translate_reply (HTTPStatus 202) = None"
    and un503: "translate_reply (HTTPStatus 503) = Some UpstreamUnavailable"
    by (simp_all add: translate_reply_def)
  note th1 = delete_is_by_digest [of demo_upstream "HTTPStatus 202" "''team/app''" "''latest''"
      "''latest''" "''sha256:aa''" "HTTPStatus 200"]
  from th1 have a1: "fst (DeleteTag demo_upstream (HTTPStatus 202) ''team/app'' ''latest'') =
      translate_reply (HTTPStatus 202)"
    by (rule conjunct1)
  from th1 n have b1: "snd (DeleteTag demo_upstream (HTTPStatus 202) ''team/app'' ''latest'') =
      demo_upstream"
    by blast
  from a1 b1 ok202
  have 1: "DeleteTag demo_upstream (HTTPStatus 202) ''team/app'' ''latest'' = (None, demo_upstream)"
    by (simp add: prod_eq_iff)
  note th2 = delete_is_by_digest [of demo_upstream "HTTPStatus 503" "''team/app''" "''sha256:aa''"
      "''latest''" "''sha256:aa''" "HTTPStatus 200"]
  from th2 have a2: "fst (DeleteTag demo_upstream (HTTPStatus 503) ''team/app'' ''sha256:aa'') =
      translate_reply (HTTPStatus 503)"
    by (rule conjunct1)
  with un503
  have a2': "fst (DeleteTag demo_upstream (HTTPStatus 503) ''team/app'' ''sha256:aa'') =
      Some UpstreamUnavailable"
    by simp
  with th2 have b2: "snd (DeleteTag demo_upstream (HTTPStatus 503) ''team/app'' ''sha256:aa'') =
      demo_upstream"
    by blast
  from a2' b2
  have 2: "DeleteTag demo_upstream (HTTPStatus 503) ''team/app'' ''sha256:aa'' =
       (Some UpstreamUnavailable, demo_upstream)"
    by (simp add: prod_eq_iff)
  note th3 = delete_is_by_digest [of demo_upstream "HTTPStatus 202" "''team/app''" "''sha256:aa''"
      "''latest''" "''sha256:aa''" "HTTPStatus 200"]
  from th3 m ok200
  have 3: "Manifest demo_upstream (HTTPStatus 200) ''team/app'' ''latest'' = Inr ''sha256:aa''"
    and c: "delete_tag_by_name demo_upstream (HTTPStatus 200) (HTTPStatus 202)
        ''team/app'' ''latest'' = DeleteTag demo_upstream (HTTPStatus 202) ''team/app'' ''sha256:aa''"
    by blast+
  from th3 have "fst (DeleteTag demo_upstream (HTTPStatus 202) ''team/app'' ''sha256:aa'') =
      translate_reply (HTTPStatus 202)"
    by (rule conjunct1)
  with ok202
  have ok: "fst (DeleteTag demo_upstream (HTTPStatus 202) ''team/app'' ''sha256:aa'') = None"
    by simp
  have 5: "snd (DeleteTag demo_upstream (HTTPStatus 202) ''team/app'' ''sha256:aa'') ''team/app''
      = [(''v0'', ''sha256:bb'')]"
    by (subst DeleteTag_succeeded [OF ok]) (simp add: demo_upstream_def)
  from ok 5 c
  have 6: "fst (delete_tag_by_name demo_upstream (HTTPStatus 200) (HTTPStatus 202)
            ''team/app'' ''latest'') = None"
    and 7: "snd (delete_tag_by_name demo_upstream (HTTPStatus 200) (HTTPStatus 202)
            ''team/app'' ''latest'') ''team/app'' = [(''v0'', ''sha256:bb'')]"
    by (simp_all only:)
  from m n 1 2 3 6 7 show ?thesis
    by (intro conjI)
qed

text \<open>
  \<^bold>\<open>C7.\<close> \<open>Catalog\<close> and \<open>ListingImageTags\<close> take the page-size hint \<open>n\<close> and the cursor
  \<open>last\<close>, send exactly one request upstream, which carries both values unchanged, and
  return the page the upstream answered together with whether more pages remain (the
  upstream sent a next link); an upstream error is returned as it is. The cursor is not
  interpreted: recoding the cursor in front of the upstream by any function is the same as
  calling the client with the recoded cursor.
\<close>

theorem listing_echoes_cursor:
  "fst (Catalog up n last') = [\<lparr>rq_path = ''/v2/_catalog'', rq_n = n, rq_last = last'\<rparr>]
   \<and> fst (ListingImageTags up repoName n last') =
       [\<lparr>rq_path = ''/v2/'' @ repoName @ ''/tags/list'', rq_n = n, rq_last = last'\<rparr>]
   \<and> (\<forall>rs. up \<lparr>rq_path = ''/v2/_catalog'', rq_n = n, rq_last = last'\<rparr> = Inr rs \<longrightarrow>
         snd (Catalog up n last') =
           Inr \<lparr>page_items = rs_items rs, has_more = (rs_link rs \<noteq> None)\<rparr>)
   \<and> (\<forall>rs. up \<lparr>rq_path = ''/v2/'' @ repoName @ ''/tags/list'', rq_n = n, rq_last = last'\<rparr>
              = Inr rs \<longrightarrow>
         snd (ListingImageTags up repoName n last') =
           Inr \<lparr>page_items = rs_items rs, has_more = (rs_link rs \<noteq> None)\<rparr>)
   \<and> (\<forall>e. up \<lparr>rq_path = ''/v2/_catalog'', rq_n = n, rq_last = last'\<rparr> = Inl e \<longrightarrow>
         snd (Catalog up n last') = Inl e)
   \<and> (\<forall>e. up \<lparr>rq_path = ''/v2/'' @ repoName @ ''/tags/list'', rq_n = n, rq_last = last'\<rparr>
              = Inl e \<longrightarrow>
         snd (ListingImageTags up repoName n last') = Inl e)
   \<and> snd (Catalog (\<lambda>rq. up (rq\<lparr>rq_last := f (rq_last rq)\<rparr>)) n last') =
       snd (Catalog up n (f last'))
   \<and> snd (ListingImageTags (\<lambda>rq. up (rq\<lparr>rq_last := f (rq_last rq)\<rparr>)) repoName n last') =
       snd (ListingImageTags up repoName n (f last'))"
  by (simp add: Catalog_def ListingImageTags_def list_page_def)

theorem listing_echoes_cursor_witness:
  "demo_transport \<lparr>rq_path = ''/v2/_catalog'', rq_n = ''2'', rq_last = []\<rparr> =
     Inr \<lparr>rs_items = [''alpha'', ''beta''],
          rs_link = Some ''</v2/_catalog?last=beta&n=2>; rel=next''\<rparr>
   \<and> snd (Catalog demo_transport ''2'' []) =
       Inr \<lparr>page_items = [''alpha'', ''beta''], has_more = True\<rparr>
   \<and> snd (Catalog demo_transport ''2'' ''beta'') =
       Inr \<lparr>page_items = [''gamma''], has_more = False\<rparr>
   \<and> fst (Catalog demo_transport ''2'' ''beta'') =
       [\<lparr>rq_path = ''/v2/_catalog'', rq_n = ''2'', rq_last = ''beta''\<rparr>]
   \<and> snd (ListingImageTags demo_transport ''team/app'' ''2'' []) = Inl NotFound"
proof -
  have a: "demo_transport \<lparr>rq_path = ''/v2/_catalog'', rq_n = ''2'', rq_last = []\<rparr> =
     Inr \<lparr>rs_items = [''alpha'', ''beta''],
          rs_link = Some ''</v2/_catalog?last=beta&n=2>; rel=next''\<rparr>"
    by (simp add: demo_transport_def)
  have b: "demo_transport \<lparr>rq_path = ''/v2/_catalog'', rq_n = ''2'', rq_last = ''beta''\<rparr> =
     Inr \<lparr>rs_items = [''gamma''], rs_link = None\<rparr>"
    by (simp add: demo_transport_def)
  have c: "demo_transport
      \<lparr>rq_path = ''/v2/'' @ ''team/app'' @ ''/tags/list'', rq_n = ''2'', rq_last = []\<rparr> =
     Inl NotFound"
    by (simp add: demo_transport_def)
  have 1: "snd (Catalog demo_transport ''2'' []) =
       Inr \<lparr>page_items = [''alpha'', ''beta''], has_more = True\<rparr>"
    using listing_echoes_cursor [of demo_transport "''2''" "[]"] a by simp
  have 2: "snd (Catalog demo_transport ''2'' ''beta'') =
       Inr \<lparr>page_items = [''gamma''], has_more = False\<rparr>"
    and 3: "fst (Catalog demo_transport ''2'' ''beta'') =
       [\<lparr>rq_path = ''/v2/_catalog'', rq_n = ''2'', rq_last = ''beta''\<rparr>]"
    using listing_echoes_cursor [of demo_transport "''2''" "''beta''"] b by simp_all
  have 4: "snd (ListingImageTags demo_transport ''team/app'' ''2'' []) = Inl NotFound"
    using listing_echoes_cursor [of demo_transport "''2''" "[]" "''team/app''"] c by simp
  from a 1 2 3 4 show ?thesis by simp
qed

end
